theory Spec2Isabelle
  imports Complex_Main
begin

section \<open>The ECMAScript Date model\<close>

text \<open>
  The source file \<^verbatim>\<open>core-js-dates-tasks.js\<close> works on JavaScript \<^verbatim>\<open>Date\<close> objects.
  A Date object is a mutable cell holding one time value: the number of milliseconds since
  1970-01-01T00:00:00Z. All calendar fields are computed from the time value by the abstract
  operations of ECMA-262 (Day, TimeWithinDay, WeekDay, YearFromTime, MonthFromTime,
  DateFromTime, MakeDay, MakeDate, LocalTime, UTC), which are embedded below under their
  ECMA-262 names.

  Modelling decisions:
  \<^item> time values are unbounded integers; the range limit of TimeClip (8.64e15 ms) is
    outside the model. A time value that is NaN is the value \<open>None\<close>;
  \<^item> what the host decides is a parameter of the functions that depend on it: the local
    time zone \<open>z\<close> (its offset from UTC at every instant, so that daylight saving time is
    covered), \<^verbatim>\<open>Date.parse\<close> and the conversion of a string to a number;
  \<^item> months are numbered from 0 (January) to 11 as in JavaScript;
  \<^item> JavaScript Numbers are doubles; the integers that occur here (time values and
    multiples of a day) are far below \<open>2 ^ 53\<close>, where double arithmetic is exact, so
    they are modelled by \<open>int\<close>.
\<close>

definition msPerDay :: int where
  "msPerDay = 86400000"

definition Day :: "int \<Rightarrow> int" where
  "Day t = t div msPerDay"

definition TimeWithinDay :: "int \<Rightarrow> int" where
  "TimeWithinDay t = t mod msPerDay"

definition WeekDay :: "int \<Rightarrow> int" where
  "WeekDay t = (Day t + 4) mod 7"

definition HourFromTime :: "int \<Rightarrow> int" where
  "HourFromTime t = (t div 3600000) mod 24"

definition MinFromTime :: "int \<Rightarrow> int" where
  "MinFromTime t = (t div 60000) mod 60"

definition SecFromTime :: "int \<Rightarrow> int" where
  "SecFromTime t = (t div 1000) mod 60"

text \<open>
  The proleptic Gregorian calendar. \<open>civil_from_days\<close> maps a day number (days since
  1970-01-01) to (year, month index, day of month). It counts days from 0000-03-01, so that
  the leap day is the last day of a year, and peels off 400-year eras (146097 days),
  centuries (36524 days), 4-year cycles (1461 days) and years (365 days).
\<close>

definition civil_from_days :: "int \<Rightarrow> int \<times> int \<times> int" where
  "civil_from_days day =
     (let z = day + 719468;
          era = z div 146097;
          doe = z mod 146097;
          c = min (doe div 36524) 3;
          doc = doe - c * 36524;
          q = doc div 1461;
          doq = doc - q * 1461;
          yq = min (doq div 365) 3;
          doy = doq - yq * 365;
          mp = (5 * doy + 2) div 153;
          d = doy - (153 * mp + 2) div 5 + 1;
          m = (if mp < 10 then mp + 2 else mp - 10);
          y = era * 400 + c * 100 + q * 4 + yq + (if m \<le> 1 then 1 else 0)
      in (y, m, d))"

definition YearFromTime :: "int \<Rightarrow> int" where
  "YearFromTime t = fst (civil_from_days (Day t))"

definition MonthFromTime :: "int \<Rightarrow> int" where
  "MonthFromTime t = fst (snd (civil_from_days (Day t)))"

definition DateFromTime :: "int \<Rightarrow> int" where
  "DateFromTime t = snd (snd (civil_from_days (Day t)))"

text \<open>
  ECMA-262 MakeDay(year, month, date): the month may lie outside 0..11 and carries into the
  year; the date is added linearly to the day number of the first of the month.
\<close>

definition MakeDay :: "int \<Rightarrow> int \<Rightarrow> int \<Rightarrow> int" where
  "MakeDay year month date =
     (let ym = year + month div 12;
          mn = month mod 12;
          y = (if mn \<le> 1 then ym - 1 else ym);
          era = y div 400;
          yoe = y mod 400;
          mp = (if 2 \<le> mn then mn - 2 else mn + 10);
          doy = (153 * mp + 2) div 5;
          doe = yoe * 365 + yoe div 4 - yoe div 100 + doy
      in era * 146097 + doe - 719468 + date - 1)"

definition MakeDate :: "int \<Rightarrow> int \<Rightarrow> int" where
  "MakeDate day time = day * msPerDay + time"

text \<open>
  The local time zone of the host is a function \<open>z\<close>, the LocalTZA(t, isUTC) of ECMA-262:
  \<open>z t True\<close> is the offset of local time from UTC, in milliseconds, at the instant \<open>t\<close>,
  and \<open>z t False\<close> is the offset that applies to the local time \<open>t\<close>. On a host without
  daylight saving time both are one constant (\<open>fixed_zone\<close>).
\<close>

type_synonym zone = "int \<Rightarrow> bool \<Rightarrow> int"

definition LocalTime :: "zone \<Rightarrow> int \<Rightarrow> int" where
  "LocalTime z t = t + z t True"

definition UTC :: "zone \<Rightarrow> int \<Rightarrow> int" where
  "UTC z t = t - z t False"

definition fixed_zone :: "int \<Rightarrow> zone" where
  "fixed_zone tza = (\<lambda>t isUTC. tza)"

text \<open>
  New York in the autumn of 2024: four hours behind UTC until 2024-11-03T06:00:00Z
  (02:00 local daylight time, time value 1730613600000), five hours behind from then on.
  A local time before 02:00 of that day is read with the earlier offset.
\<close>

definition New_York_2024 :: zone where
  "New_York_2024 t isUTC =
     (if isUTC then (if t < 1730613600000 then - 14400000 else - 18000000)
      else (if t < 1730599200000 then - 14400000 else - 18000000))"

text \<open>
  \<^verbatim>\<open>Date.UTC(y, m, d)\<close> and \<^verbatim>\<open>new Date(y, m, d)\<close> both map a year from 0 to 99 to
  1900 + year (ECMA-262, MakeFullYear).
\<close>

definition MakeFullYear :: "int \<Rightarrow> int" where
  "MakeFullYear y = (if 0 \<le> y \<and> y \<le> 99 then 1900 + y else y)"

definition Date_UTC :: "int \<Rightarrow> int \<Rightarrow> int \<Rightarrow> int" where
  "Date_UTC y m d = MakeDate (MakeDay (MakeFullYear y) m d) 0"

definition Date_local :: "zone \<Rightarrow> int \<Rightarrow> int \<Rightarrow> int \<Rightarrow> int" where
  "Date_local z y m d = UTC z (MakeDate (MakeDay (MakeFullYear y) m d) 0)"

subsection \<open>Methods of Date.prototype, on the time value of the receiver\<close>

definition getUTCDay :: "int \<Rightarrow> int" where
  "getUTCDay t = WeekDay t"

definition getUTCDate :: "int \<Rightarrow> int" where
  "getUTCDate t = DateFromTime t"

definition getUTCMonth :: "int \<Rightarrow> int" where
  "getUTCMonth t = MonthFromTime t"

definition getUTCFullYear :: "int \<Rightarrow> int" where
  "getUTCFullYear t = YearFromTime t"

definition getUTCHours :: "int \<Rightarrow> int" where
  "getUTCHours t = HourFromTime t"

definition getDate :: "zone \<Rightarrow> int \<Rightarrow> int" where
  "getDate z t = DateFromTime (LocalTime z t)"

definition getMonth :: "zone \<Rightarrow> int \<Rightarrow> int" where
  "getMonth z t = MonthFromTime (LocalTime z t)"

definition getFullYear :: "zone \<Rightarrow> int \<Rightarrow> int" where
  "getFullYear z t = YearFromTime (LocalTime z t)"

definition getHours :: "zone \<Rightarrow> int \<Rightarrow> int" where
  "getHours z t = HourFromTime (LocalTime z t)"

definition getMinutes :: "zone \<Rightarrow> int \<Rightarrow> int" where
  "getMinutes z t = MinFromTime (LocalTime z t)"

definition getSeconds :: "zone \<Rightarrow> int \<Rightarrow> int" where
  "getSeconds z t = SecFromTime (LocalTime z t)"

text \<open>The setters return the new time value of the receiver.\<close>

definition setUTCDate :: "int \<Rightarrow> int \<Rightarrow> int" where
  "setUTCDate t dt =
     MakeDate (MakeDay (YearFromTime t) (MonthFromTime t) dt) (TimeWithinDay t)"

definition setUTCMonth :: "int \<Rightarrow> int \<Rightarrow> int" where
  "setUTCMonth t m =
     MakeDate (MakeDay (YearFromTime t) m (DateFromTime t)) (TimeWithinDay t)"

definition setDate :: "zone \<Rightarrow> int \<Rightarrow> int \<Rightarrow> int" where
  "setDate z t dt =
     (let lt = LocalTime z t
      in UTC z (MakeDate (MakeDay (YearFromTime lt) (MonthFromTime lt) dt) (TimeWithinDay lt)))"

subsection \<open>Date.parse of a Date object\<close>

text \<open>
  \<^verbatim>\<open>Date.parse\<close> first applies ToString to its argument; for a Date object that is
  \<^verbatim>\<open>Date.prototype.toString()\<close>, for example
  \<^verbatim>\<open>Sat Feb 03 2024 00:00:00 GMT+0000 (Coordinated Universal Time)\<close>: the local date,
  the local time to the second, and the offset of the zone. How \<^verbatim>\<open>Date.parse\<close> reads a
  string of that form is left to the implementation, so the source function that calls
  \<^verbatim>\<open>Date.parse(date)\<close> takes it as a parameter \<open>parse\<close>, from the time value of the date to
  the number returned, \<open>None\<close> for NaN.

  \<open>V8_Date_parse_Date\<close> is that function on Node.js and on every other host built on V8.
  The milliseconds are not in the string. The year is printed with at least four digits
  and read back as a number: a year from 0 to 49 is taken as 2000 + year and a year from 50
  to 99 as 1900 + year; a negative year is not read at all and the result is NaN. The
  offset is printed in hours and minutes (the model takes the offset to be whole minutes)
  and subtracted again. So \<^verbatim>\<open>Date.parse(new Date(1500))\<close> is 1000, and
  \<^verbatim>\<open>Date.parse(new Date('0050-01-01T00:00:00Z'))\<close> is the time value of
  1950-01-01T00:00:00Z.
\<close>

definition V8_Date_parse_Date :: "zone \<Rightarrow> int \<Rightarrow> int option" where
  "V8_Date_parse_Date z t =
     (let lt = LocalTime z t;
          year = YearFromTime lt;
          time = TimeWithinDay lt - TimeWithinDay lt mod 1000
      in if year < 0 then None
         else Some (MakeDate (MakeDay (if year \<le> 49 then 2000 + year
                                       else if year \<le> 99 then 1900 + year
                                       else year)
                                      (MonthFromTime lt) (DateFromTime lt)) time
                    - z t True))"

subsection \<open>The store of Date objects\<close>

text \<open>
  Date objects passed by the caller are references into a store: the list of the time
  values of all Date objects allocated so far. \<^verbatim>\<open>new Date(...)\<close> appends a cell and
  returns its index; a setter called on a reference overwrites the cell.

  A Date object whose time value is NaN (an Invalid Date) has no cell: every getter
  returns NaN for it and no setter that the source calls changes it, so all Invalid Dates
  behave alike, and a reference that may be to an Invalid Date is a \<open>ref option\<close>, with
  \<open>None\<close> for the Invalid Date. \<open>new_Date_Number\<close> is \<^verbatim>\<open>new Date(value)\<close> for a Number
  that may be NaN.
\<close>

type_synonym ref = nat
type_synonym store = "int list"

definition new_Date :: "int \<Rightarrow> store \<Rightarrow> ref \<times> store" where
  "new_Date tv s = (length s, s @ [tv])"

definition new_Date_Number :: "int option \<Rightarrow> store \<Rightarrow> ref option \<times> store" where
  "new_Date_Number v s =
     (case v of
        None \<Rightarrow> (None, s)
      | Some tv \<Rightarrow> (case new_Date tv s of (r, s1) \<Rightarrow> (Some r, s1)))"

section \<open>The functions of the source\<close>

text \<open>
  \<^verbatim>\<open>
  function getNextFriday(date) {
    let result = date;
    if (date.getUTCDay() > 5) {
      result = new Date(Date.parse(date) + date.getUTCDay() * 24 * 60 * 60 * 1000);
    } else if (date.getUTCDay() === 5) {
      result = new Date(Date.parse(date) + 7 * 24 * 60 * 60 * 1000);
    } else if (date.getUTCDay() <= 5) {
      result = new Date(Date.parse(date) + (5 - date.getUTCDay()) * 24 * 60 * 60 * 1000);
    }
    return result;
  }
  \<close>
  For an Invalid Date \<^verbatim>\<open>getUTCDay()\<close> is NaN, the three comparisons are false and
  the function returns its argument. A sum with NaN is NaN.
\<close>

definition getNextFriday ::
  "(int \<Rightarrow> int option) \<Rightarrow> store \<Rightarrow> ref option \<Rightarrow> ref option \<times> store" where
  "getNextFriday parse s date =
     (case date of
        None \<Rightarrow> (date, s)
      | Some d \<Rightarrow>
          (if getUTCDay (s ! d) > 5 then
             new_Date_Number
               (map_option (\<lambda>p. p + getUTCDay (s ! d) * 24 * 60 * 60 * 1000) (parse (s ! d))) s
           else if getUTCDay (s ! d) = 5 then
             new_Date_Number (map_option (\<lambda>p. p + 7 * 24 * 60 * 60 * 1000) (parse (s ! d))) s
           else if getUTCDay (s ! d) \<le> 5 then
             new_Date_Number
               (map_option (\<lambda>p. p + (5 - getUTCDay (s ! d)) * 24 * 60 * 60 * 1000)
                  (parse (s ! d))) s
           else (date, s)))"

text \<open>
  \<^verbatim>\<open>
  function isLeapYear(date) {
    date.setUTCMonth(2);
    return date.getUTCDate() === 29;
  }
  \<close>
  The result is paired with the store after the call.
\<close>

definition isLeapYear :: "store \<Rightarrow> ref \<Rightarrow> bool \<times> store" where
  "isLeapYear s date =
     (let s1 = s[date := setUTCMonth (s ! date) 2]
      in (getUTCDate (s1 ! date) = 29, s1))"

text \<open>
  \<^verbatim>\<open>
  function getNextFridayThe13th(date) {
    function findNextFriday(currentDate) {
      if (currentDate.getUTCDay() === 5 && currentDate.getUTCDate() === 13) {
        return currentDate;
      }
      currentDate.setUTCDate(currentDate.getUTCDate() + 1);
      return findNextFriday(currentDate);
    }
    const result = findNextFriday(date);
    return new Date(result.setDate(13));
  }
  \<close>
  \<open>currentDate\<close> is the caller's object: the search advances that very cell. The recursion
  has no bound in the source, so \<open>findNextFriday\<close> is a partial function and \<open>None\<close> stands
  for a search that does not return.
\<close>

partial_function (option) findNextFriday :: "store \<Rightarrow> ref \<Rightarrow> (ref \<times> store) option" where
  "findNextFriday s currentDate =
     (if getUTCDay (s ! currentDate) = 5 \<and> getUTCDate (s ! currentDate) = 13 then
        Some (currentDate, s)
      else
        findNextFriday
          (s[currentDate := setUTCDate (s ! currentDate) (getUTCDate (s ! currentDate) + 1)])
          currentDate)"

declare findNextFriday.simps [code]

definition getNextFridayThe13th :: "zone \<Rightarrow> store \<Rightarrow> ref \<Rightarrow> (ref \<times> store) option" where
  "getNextFridayThe13th z s date =
     (case findNextFriday s date of
        None \<Rightarrow> None
      | Some (result, s1) \<Rightarrow>
          (let u = setDate z (s1 ! result) 13;
               s2 = s1[result := u]
           in Some (new_Date u s2)))"

text \<open>
  \<^verbatim>\<open>
  function getWeekNumberByDate(date) {
    const myDate = new Date(Date.UTC(date.getFullYear(), date.getMonth(), date.getDate()));
    const currentYear = myDate.getFullYear();
    const firstDayOfYear = new Date(Date.UTC(currentYear, 0, 1));
    let dayOfFirstThursdayOfYear = null;
    if (firstDayOfYear.getUTCDay() <= 4)
      dayOfFirstThursdayOfYear = new Date(
        Date.UTC(currentYear, 0, 1 + (4 - firstDayOfYear.getUTCDay())));
    else
      dayOfFirstThursdayOfYear = new Date(
        Date.UTC(currentYear, 0, 1 + (7 - firstDayOfYear.getUTCDay() + 4)));
    const firstMondayOfYear = new Date(dayOfFirstThursdayOfYear);
    firstMondayOfYear.setUTCDate(dayOfFirstThursdayOfYear.getUTCDay() - 3);
    const diff = myDate - firstMondayOfYear;
    const milesecInOneWeek = 7 * 24 * 60 * 60 * 1000;
    return Math.floor(diff / milesecInOneWeek) + 1;
  }
  \<close>
  \<^verbatim>\<open>Math.floor\<close> of the quotient is \<open>div\<close> on \<open>int\<close>, which rounds towards minus infinity.
\<close>

definition getWeekNumberByDate :: "zone \<Rightarrow> store \<Rightarrow> ref \<Rightarrow> int \<times> store" where
  "getWeekNumberByDate z s date =
     (let (myDate, s1) =
            new_Date (Date_UTC (getFullYear z (s ! date)) (getMonth z (s ! date))
                               (getDate z (s ! date))) s;
          currentYear = getFullYear z (s1 ! myDate);
          (firstDayOfYear, s2) = new_Date (Date_UTC currentYear 0 1) s1;
          (dayOfFirstThursdayOfYear, s3) =
            (if getUTCDay (s2 ! firstDayOfYear) \<le> 4 then
               new_Date (Date_UTC currentYear 0 (1 + (4 - getUTCDay (s2 ! firstDayOfYear)))) s2
             else
               new_Date (Date_UTC currentYear 0 (1 + (7 - getUTCDay (s2 ! firstDayOfYear) + 4))) s2);
          (firstMondayOfYear, s4) = new_Date (s3 ! dayOfFirstThursdayOfYear) s3;
          s5 = s4[firstMondayOfYear :=
                    setUTCDate (s4 ! firstMondayOfYear)
                               (getUTCDay (s4 ! dayOfFirstThursdayOfYear) - 3)];
          diff = s5 ! myDate - s5 ! firstMondayOfYear;
          milesecInOneWeek = 7 * 24 * 60 * 60 * 1000
      in (diff div milesecInOneWeek + 1, s5))"

text \<open>
  The week number as the specification words it: from January 1 of the date's year advance
  to the first Thursday (\<open>4 - index\<close> days when the weekday index of January 1 is at most 4,
  else \<open>7 - index + 4\<close> days), back up 3 days from that Thursday to the Monday of week 1,
  and return \<open>floor((date - week1Monday) / 7 days) + 1\<close>.
\<close>

definition getWeekNumberByDate_spec :: "zone \<Rightarrow> int \<Rightarrow> int" where
  "getWeekNumberByDate_spec z t =
     (let year = getFullYear z t;
          targetDate = MakeDate (MakeDay year (getMonth z t) (getDate z t)) 0;
          jan1 = MakeDate (MakeDay year 0 1) 0;
          index = WeekDay jan1;
          firstThursday =
            (if index \<le> 4 then jan1 + (4 - index) * msPerDay
             else jan1 + (7 - index + 4) * msPerDay);
          week1Monday = firstThursday - 3 * msPerDay
      in (targetDate - week1Monday) div (7 * msPerDay) + 1)"

subsection \<open>Numbers and strings\<close>

text \<open>
  String concatenation with a number (\<^verbatim>\<open>'0' + hour\<close>, a template literal) prints an
  integer in decimal, with a minus sign when it is negative.
\<close>

fun digits :: "nat \<Rightarrow> string" where
  "digits n =
     (if n < 10 then [''0123456789'' ! n]
      else digits (n div 10) @ [''0123456789'' ! (n mod 10)])"

declare digits.simps [simp del]

definition Number_toString :: "int \<Rightarrow> string" where
  "Number_toString n = (if n < 0 then CHR ''-'' # digits (nat (- n)) else digits (nat n))"

text \<open>
  \<^verbatim>\<open>
  function getTime(date) {
    const hour = date.getHours();
    const minute = date.getMinutes();
    const second = date.getSeconds();
    let temp = (hour < 10 ? '0' : '') + hour;
    temp += (minute < 10 ? ':0' : ':') + minute;
    temp += (second < 10 ? ':0' : ':') + second;
    return temp;
  }
  \<close>
\<close>

definition getTime :: "zone \<Rightarrow> store \<Rightarrow> ref \<Rightarrow> string \<times> store" where
  "getTime z s date =
     (let hour = getHours z (s ! date);
          minute = getMinutes z (s ! date);
          second = getSeconds z (s ! date);
          temp = (if hour < 10 then ''0'' else []) @ Number_toString hour;
          temp = temp @ (if minute < 10 then '':0'' else '':'') @ Number_toString minute;
          temp = temp @ (if second < 10 then '':0'' else '':'') @ Number_toString second
      in (temp, s))"

text \<open>
  \<^verbatim>\<open>
  function getQuarter(date) {
    const myDate = new Date(Date.UTC(date.getFullYear(), date.getMonth(), date.getDate()));
    const year = [[1, 2, 3], [4, 5, 6], [7, 8, 9], [10, 11, 12]];
    const month = myDate.getUTCMonth() + 1;
    let quarter = 0;
    for (let i = 0; i < year.length; i += 1) {
      if (year[i].filter((item) => item === month).length) quarter = i + 1;
    }
    return quarter;
  }
  \<close>
\<close>

function getQuarter_for :: "int list list \<Rightarrow> int \<Rightarrow> nat \<Rightarrow> int \<Rightarrow> int" where
  "getQuarter_for year month i quarter =
     (if i < length year then
        getQuarter_for year month (i + 1)
          (if length (filter (\<lambda>item. item = month) (year ! i)) \<noteq> 0 then int i + 1
           else quarter)
      else quarter)"
  by pat_completeness auto
termination
  by (relation "measure (\<lambda>(year, month, i, quarter). length year - i)") auto

declare getQuarter_for.simps [simp del]

definition getQuarter :: "zone \<Rightarrow> store \<Rightarrow> ref \<Rightarrow> int \<times> store" where
  "getQuarter z s date =
     (let (myDate, s1) =
            new_Date (Date_UTC (getFullYear z (s ! date)) (getMonth z (s ! date))
                               (getDate z (s ! date))) s;
          year = [[1, 2, 3], [4, 5, 6], [7, 8, 9], [10, 11, 12]];
          month = getUTCMonth (s1 ! myDate) + 1
      in (getQuarter_for year month 0 0, s1))"

subsection \<open>Date strings\<close>

text \<open>
  \<^verbatim>\<open>Date.parse\<close> of a string is a function of the host: ECMA-262 fixes it on the
  date-time string format and leaves every other string to the implementation. The two
  source functions that parse a string take it as a parameter \<open>parse\<close>, from the string to
  the time value, \<open>None\<close> for NaN; what is proved about them holds for every such function.
  \<^verbatim>\<open>new Date(string)\<close> parses the string exactly as \<^verbatim>\<open>Date.parse\<close> does.
\<close>

text \<open>
  \<^verbatim>\<open>
  function getCountDaysOnPeriod(dateStart, dateEnd) {
    return (Date.parse(dateEnd) - Date.parse(dateStart)) / (60 * 60 * 24 * 1000) + 1;
  }
  \<close>
  The quotient is a JavaScript Number and need not be whole: the result is a rational, and
  \<open>None\<close> is NaN (either string unparseable).
\<close>

definition getCountDaysOnPeriod ::
  "(string \<Rightarrow> int option) \<Rightarrow> string \<Rightarrow> string \<Rightarrow> rat option" where
  "getCountDaysOnPeriod parse dateStart dateEnd =
     (case (parse dateEnd, parse dateStart) of
        (Some e, Some b) \<Rightarrow> Some (of_int (e - b) / (60 * 60 * 24 * 1000) + 1)
      | _ \<Rightarrow> None)"

text \<open>
  \<^verbatim>\<open>
  function formatDate(date) {
    const myDate = new Date(date);
    const dayOfDate =
      `${myDate.getUTCMonth() + 1}/${myDate.getUTCDate()}/${myDate.getUTCFullYear()}`;
    const hour = myDate.getUTCHours();
    const minute = myDate.getMinutes();
    const second = myDate.getSeconds();
    let temp = `${hour > 12 ? hour - 12 : hour}`;
    if (hour === 0) temp = '12';
    temp += (minute < 10 ? ':0' : ':') + minute;
    temp += (second < 10 ? ':0' : ':') + second;
    temp += hour >= 12 ? ' PM' : ' AM';
    return `${dayOfDate}, ${temp}`;
  }
  \<close>
  On an unparseable string every field is NaN, every comparison is false and the function
  returns the string of the first case.
\<close>

definition formatDate :: "zone \<Rightarrow> (string \<Rightarrow> int option) \<Rightarrow> string \<Rightarrow> string" where
  "formatDate z parse date =
     (case parse date of
        None \<Rightarrow> ''NaN/NaN/NaN, NaN:NaN:NaN AM''
      | Some myDate \<Rightarrow>
          (let dayOfDate = Number_toString (getUTCMonth myDate + 1) @ ''/''
                 @ Number_toString (getUTCDate myDate) @ ''/''
                 @ Number_toString (getUTCFullYear myDate);
               hour = getUTCHours myDate;
               minute = getMinutes z myDate;
               second = getSeconds z myDate;
               temp = Number_toString (if hour > 12 then hour - 12 else hour);
               temp = (if hour = 0 then ''12'' else temp);
               temp = temp @ (if minute < 10 then '':0'' else '':'') @ Number_toString minute;
               temp = temp @ (if second < 10 then '':0'' else '':'') @ Number_toString second;
               temp = temp @ (if hour \<ge> 12 then '' PM'' else '' AM'')
           in dayOfDate @ '', '' @ temp))"

subsection \<open>The work schedule\<close>

text \<open>
  \<^verbatim>\<open>
  function getWorkSchedule(period, countWorkDays, countOffDays) {
    const [start, end] = [period.start.split('-'), period.end.split('-')];
    const dataStart = new Date(start[2], start[1] - 1, +start[0]);
    const dataEnd = new Date(end[2], end[1] - 1, +end[0] + 1);
    const schedule = [];
    dataStart.setUTCDate(dataStart.getUTCDate() - 1);
    while (dataStart < dataEnd) {
      for (let i = 0; i < countWorkDays; i += 1) {
        dataStart.setUTCDate(dataStart.getUTCDate() + 1);
        const month = dataStart.getMonth() + 1 < 10
            ? `0${dataStart.getMonth() + 1}` : dataStart.getMonth() + 1;
        const date = dataStart.getDate() < 10 ? `0${dataStart.getDate()}` : dataStart.getDate();
        if (dataStart < dataEnd) {
          schedule.push(`${date}-${month}-${dataStart.getFullYear()}`);
        }
      }
      dataStart.setUTCDate(dataStart.getUTCDate() + countOffDays);
    }
    return schedule;
  }
  \<close>
  \<open>dataStart\<close> and \<open>dataEnd\<close> are objects of the function's own, never shared: they are
  modelled by their time values, and the loops pass the time value of \<open>dataStart\<close> and the
  schedule along. The counts are integers.

  The fields of a period string become numbers by the ToNumber of ECMA-262 (in the
  subtraction, in the unary plus, and in the Date constructor). It is the parameter
  \<open>toNumber\<close>, from the string to its numeric value; \<open>None\<close> stands for NaN and for the
  infinities, which all make the Date invalid. A missing field is \<^verbatim>\<open>undefined\<close>, whose
  number is NaN. The numeric value is an exact rational (no rounding to a double); the
  Date constructor cuts the fraction of each argument off (ToIntegerOrInfinity) and takes
  a year from 0 to 99 as 1900 + year. With an Invalid Date on either side every comparison
  is false and the schedule is empty.
\<close>

record DatePeriod =
  period_start :: string
  period_end :: string

fun split_dash :: "string \<Rightarrow> string list" where
  "split_dash [] = [[]]"
| "split_dash (ch # cs) =
     (if ch = CHR ''-'' then [] # split_dash cs
      else (case split_dash cs of w # ws \<Rightarrow> (ch # w) # ws | [] \<Rightarrow> [[ch]]))"

definition ToNumber_at :: "(string \<Rightarrow> rat option) \<Rightarrow> string list \<Rightarrow> nat \<Rightarrow> rat option" where
  "ToNumber_at toNumber parts i = (if i < length parts then toNumber (parts ! i) else None)"

definition ToIntegerOrInfinity :: "rat \<Rightarrow> int" where
  "ToIntegerOrInfinity q = (if 0 \<le> q then \<lfloor>q\<rfloor> else \<lceil>q\<rceil>)"

definition new_Date_fields ::
  "zone \<Rightarrow> rat option \<Rightarrow> rat option \<Rightarrow> rat option \<Rightarrow> int option" where
  "new_Date_fields z y m d =
     (case (y, m, d) of
        (Some y', Some m', Some d') \<Rightarrow>
          Some (Date_local z (ToIntegerOrInfinity y') (ToIntegerOrInfinity m')
                             (ToIntegerOrInfinity d'))
      | _ \<Rightarrow> None)"

function getWorkSchedule_for ::
  "zone \<Rightarrow> int \<Rightarrow> int \<Rightarrow> int \<Rightarrow> int \<times> string list \<Rightarrow> int \<times> string list" where
  "getWorkSchedule_for z countWorkDays dataEnd i (dataStart, schedule) =
     (if i < countWorkDays then
        (let dataStart1 = setUTCDate dataStart (getUTCDate dataStart + 1);
             month = (if getMonth z dataStart1 + 1 < 10
                      then ''0'' @ Number_toString (getMonth z dataStart1 + 1)
                      else Number_toString (getMonth z dataStart1 + 1));
             date = (if getDate z dataStart1 < 10
                     then ''0'' @ Number_toString (getDate z dataStart1)
                     else Number_toString (getDate z dataStart1));
             schedule1 = (if dataStart1 < dataEnd
                          then schedule @ [date @ ''-'' @ month @ ''-''
                                           @ Number_toString (getFullYear z dataStart1)]
                          else schedule)
         in getWorkSchedule_for z countWorkDays dataEnd (i + 1) (dataStart1, schedule1))
      else (dataStart, schedule))"
  by pat_completeness auto
termination
  by (relation "measure (\<lambda>(z, countWorkDays, dataEnd, i, st). nat (countWorkDays - i))") auto

declare getWorkSchedule_for.simps [simp del]

partial_function (option) getWorkSchedule_while ::
  "zone \<Rightarrow> int \<Rightarrow> int \<Rightarrow> int \<Rightarrow> int \<Rightarrow> string list \<Rightarrow> string list option" where
  "getWorkSchedule_while z countWorkDays countOffDays dataEnd dataStart schedule =
     (if dataStart < dataEnd then
        (case getWorkSchedule_for z countWorkDays dataEnd 0 (dataStart, schedule) of
           (dataStart1, schedule1) \<Rightarrow>
             getWorkSchedule_while z countWorkDays countOffDays dataEnd
               (setUTCDate dataStart1 (getUTCDate dataStart1 + countOffDays)) schedule1)
      else Some schedule)"

declare getWorkSchedule_while.simps [code]

definition getWorkSchedule ::
  "zone \<Rightarrow> (string \<Rightarrow> rat option) \<Rightarrow> DatePeriod \<Rightarrow> int \<Rightarrow> int \<Rightarrow> string list option" where
  "getWorkSchedule z toNumber period countWorkDays countOffDays =
     (let start = split_dash (period_start period);
          end1 = split_dash (period_end period);
          dataStart = new_Date_fields z (ToNumber_at toNumber start 2)
                        (map_option (\<lambda>m. m - 1) (ToNumber_at toNumber start 1))
                        (ToNumber_at toNumber start 0);
          dataEnd = new_Date_fields z (ToNumber_at toNumber end1 2)
                      (map_option (\<lambda>m. m - 1) (ToNumber_at toNumber end1 1))
                      (map_option (\<lambda>d. d + 1) (ToNumber_at toNumber end1 0))
      in (case (dataStart, dataEnd) of
            (Some dataStart0, Some dataEnd0) \<Rightarrow>
              getWorkSchedule_while z countWorkDays countOffDays dataEnd0
                (setUTCDate dataStart0 (getUTCDate dataStart0 - 1)) []
          | _ \<Rightarrow> Some []))"

text \<open>
  The schedule as the specification words it, on day numbers: the cursor starts the day
  before the period's start; a cycle advances it one day at a time for \<open>workDays\<close>
  iterations, emitting each day strictly before \<open>stop\<close> (the day after the period's end),
  then skips \<open>offDays\<close> days; cycles repeat until the cursor reaches or passes \<open>stop\<close>.
  A cycle that does not move the cursor forward would repeat for ever; the definition
  stops there, and the lemmas about it assume that a cycle moves forward.
\<close>

function workSchedule_spec :: "int \<Rightarrow> int \<Rightarrow> int \<Rightarrow> int \<Rightarrow> int list" where
  "workSchedule_spec workDays offDays stop cursor =
     (if cursor < stop \<and> 0 < max workDays 0 + offDays then
        filter (\<lambda>d. d < stop) [cursor + 1 .. cursor + workDays]
        @ workSchedule_spec workDays offDays stop (cursor + max workDays 0 + offDays)
      else [])"
  by pat_completeness auto
termination
  by (relation "measure (\<lambda>(workDays, offDays, stop, cursor). nat (stop - cursor))") auto

declare workSchedule_spec.simps [simp del]

text \<open>
  A day number printed as the source prints it: day and month padded to two digits with a
  zero, the year printed as a number.
\<close>

definition format_day :: "int \<Rightarrow> string" where
  "format_day day =
     (case civil_from_days day of
        (y, m, d) \<Rightarrow>
          (if d < 10 then ''0'' @ Number_toString d else Number_toString d) @ ''-''
          @ (if m + 1 < 10 then ''0'' @ Number_toString (m + 1) else Number_toString (m + 1))
          @ ''-'' @ Number_toString y)"

text \<open>
  The day number of the date that the source reads from a period string, with \<open>k\<close> added
  to the day field (0 for the start, 1 for the day after the end): the three fields between
  the dashes go to the Date constructor as day, month and year.
\<close>

definition period_day :: "(string \<Rightarrow> rat option) \<Rightarrow> rat \<Rightarrow> string \<Rightarrow> int option" where
  "period_day toNumber k str =
     (let parts = split_dash str
      in (case (ToNumber_at toNumber parts 2, ToNumber_at toNumber parts 1,
                ToNumber_at toNumber parts 0) of
            (Some y, Some m, Some d) \<Rightarrow>
              Some (MakeDay (MakeFullYear (ToIntegerOrInfinity y)) (ToIntegerOrInfinity (m - 1))
                            (ToIntegerOrInfinity (d + k)))
          | _ \<Rightarrow> None))"

section \<open>The calendar\<close>

text \<open>
  \<open>MakeDay\<close> inverts \<open>civil_from_days\<close>: the fields read from a time value, put back
  with the day of the month moved by \<open>k\<close>, give the day \<open>k\<close> days later. This is what makes
  \<^verbatim>\<open>d.setUTCDate(d.getUTCDate() + k)\<close> a move by \<open>k\<close> whole days.
\<close>

text \<open>
  Known dates: the epoch is Thursday 1970-01-01; 2000 and 2024 have a February 29, 1900
  and 2023 have none; months and days out of range carry over; the second example of
  \<^verbatim>\<open>dateToTimestamp\<close> in the source (04 Dec 1995 00:12:00 UTC is 818035920000).
\<close>

lemma calendar_checks:
  "civil_from_days 0 = (1970, 0, 1)"
  "WeekDay 0 = 4"
  "civil_from_days (-1) = (1969, 11, 31)"
  "civil_from_days 11016 = (2000, 1, 29)"
  "civil_from_days 11017 = (2000, 2, 1)"
  "civil_from_days (MakeDay 1900 1 29) = (1900, 2, 1)"
  "civil_from_days (MakeDay 2023 1 29) = (2023, 2, 1)"
  "civil_from_days (MakeDay 2024 1 29) = (2024, 1, 29)"
  "civil_from_days (MakeDay 2024 11 31) = (2024, 11, 31)"
  "civil_from_days (MakeDay 2024 12 1) = (2025, 0, 1)"
  "civil_from_days (MakeDay 2024 (-1) 1) = (2023, 11, 1)"
  "civil_from_days (MakeDay 2024 0 0) = (2023, 11, 31)"
  "MakeDate (MakeDay 1995 11 4) (12 * 60000) = 818035920000"
  "MakeDay 2024 0 1 = 19723"
  "WeekDay (MakeDate 19723 0) = 1"
  by code_simp+

text \<open>
  The day number of January 1 is the DayFromYear of ECMA-262.
\<close>

lemma DayFromYear:
  "MakeDay y 0 1 = 365 * (y - 1970) + (y - 1969) div 4 - (y - 1901) div 100 + (y - 1601) div 400"
proof -
  define e where "e = (y - 1) div 400"
  define r where "r = (y - 1) mod 400"
  have y: "y = 400 * e + r + 1" by (simp add: e_def r_def)
  have r: "0 \<le> r" "r < 400" by (simp_all add: r_def)
  have a: "(y - 1969) div 4 = 100 * e + r div 4 - 492" unfolding y by simp
  have b: "(y - 1901) div 100 = 4 * e + r div 100 - 19" unfolding y by simp
  have c: "(y - 1601) div 400 = e - 4" unfolding y using r by simp
  have "MakeDay y 0 1 = e * 146097 + (r * 365 + r div 4 - r div 100 + 306) - 719468"
    by (simp add: MakeDay_def Let_def e_def r_def)
  then show ?thesis unfolding a b c by (simp add: y)
qed

lemma civil_bounds_aux:
  fixes doe :: int
  assumes "0 \<le> doe" "doe < 146097"
    and "c = min (doe div 36524) 3" and "doc = doe - c * 36524"
    and "q = doc div 1461" and "doq = doc - q * 1461"
    and "yq = min (doq div 365) 3" and "doy = doq - yq * 365"
    and "mp = (5 * doy + 2) div 153"
  shows "0 \<le> c \<and> c \<le> 3 \<and> 0 \<le> q \<and> q \<le> 24 \<and> 0 \<le> yq \<and> yq \<le> 3 \<and>
         0 \<le> doy \<and> doy \<le> 365 \<and> 0 \<le> mp \<and> mp \<le> 11"
proof -
  have c: "0 \<le> c \<and> c \<le> 3" using assms(1-3) by (auto simp: min_def)
  have doc: "0 \<le> doc \<and> doc \<le> 36524" using assms(1-4) by (auto simp: min_def)
  have q: "0 \<le> q \<and> q \<le> 24" using doc assms(5) by auto
  have doq: "0 \<le> doq \<and> doq \<le> 1460" unfolding assms(6) assms(5)
    by (simp add: minus_div_mult_eq_mod)
  have yq: "0 \<le> yq \<and> yq \<le> 3" using doq assms(7) by (auto simp: min_def)
  have doy: "0 \<le> doy \<and> doy \<le> 365" using doq assms(7,8) by (auto simp: min_def)
  have mp: "0 \<le> mp \<and> mp \<le> 11" using doy assms(9) by auto
  show ?thesis using c q yq doy mp by simp
qed

lemma MakeDay_civil_from_days:
  assumes "civil_from_days day = (y, m, d)"
  shows "MakeDay y m (d + k) = day + k"
proof -
  define z where "z = day + 719468"
  define era where "era = z div 146097"
  define doe where "doe = z mod 146097"
  define c where "c = min (doe div 36524) 3"
  define doc where "doc = doe - c * 36524"
  define q where "q = doc div 1461"
  define doq where "doq = doc - q * 1461"
  define yq where "yq = min (doq div 365) 3"
  define doy where "doy = doq - yq * 365"
  define mp where "mp = (5 * doy + 2) div 153"
  define yoe where "yoe = c * 100 + q * 4 + yq"
  have civ: "civil_from_days day =
      (era * 400 + c * 100 + q * 4 + yq + (if (if mp < 10 then mp + 2 else mp - 10) \<le> 1 then 1 else 0),
       (if mp < 10 then mp + 2 else mp - 10),
       doy - (153 * mp + 2) div 5 + 1)"
    unfolding civil_from_days_def Let_def mp_def doy_def yq_def doq_def q_def doc_def
      c_def doe_def era_def z_def by (rule refl)
  have doe: "0 \<le> doe" "doe < 146097" by (simp_all add: doe_def)
  note b = civil_bounds_aux[OF doe c_def doc_def q_def doq_def yq_def doy_def mp_def]
  have yoe: "0 \<le> yoe \<and> yoe < 400 \<and> yoe div 4 = c * 25 + q \<and> yoe div 100 = c"
    using b unfolding yoe_def by auto
  have doe_eq: "doe = yoe * 365 + yoe div 4 - yoe div 100 + doy"
    using yoe unfolding yoe_def doy_def doq_def doc_def by simp
  have zeq: "z = era * 146097 + doe" unfolding era_def doe_def by simp
  define y' where "y' = era * 400 + yoe"
  have y'd: "y' div 400 = era" "y' mod 400 = yoe"
    using yoe unfolding y'_def by (simp_all add: div_pos_pos_trivial)
  from assms civ have mv: "m = (if mp < 10 then mp + 2 else mp - 10)"
    and dv: "d = doy - (153 * mp + 2) div 5 + 1" by simp_all
  from assms civ have "y = era * 400 + c * 100 + q * 4 + yq + (if m \<le> 1 then 1 else 0)"
    unfolding mv by simp
  then have yv: "y = y' + (if m \<le> 1 then 1 else 0)"
    by (simp add: y'_def yoe_def)
  have m: "0 \<le> m" "m \<le> 11" using b mv by (simp_all split: if_splits)
  have m12: "m div 12 = 0" "m mod 12 = m" using m by simp_all
  have mp': "(if 2 \<le> m then m - 2 else m + 10) = mp" using b mv by (simp split: if_splits)
  have yy: "(if m \<le> 1 then y - 1 else y) = y'" using yv by simp
  have "MakeDay y m (d + k) =
      era * 146097 + (yoe * 365 + yoe div 4 - yoe div 100 + (153 * mp + 2) div 5)
        - 719468 + (d + k) - 1"
    unfolding MakeDay_def Let_def m12 by (simp only: add_0_right mp' yy y'd)
  also have "\<dots> = z - 719468 + k" unfolding zeq doe_eq dv by simp
  finally show ?thesis by (simp add: z_def)
qed

lemma MakeDay_fields: "MakeDay (YearFromTime t) (MonthFromTime t) (DateFromTime t + k) = Day t + k"
  by (rule MakeDay_civil_from_days) (simp add: YearFromTime_def MonthFromTime_def DateFromTime_def)

lemma Day_TimeWithinDay: "Day t * msPerDay + TimeWithinDay t = t"
  by (simp add: Day_def TimeWithinDay_def)

lemma setUTCDate_add: "setUTCDate t (getUTCDate t + k) = t + k * msPerDay"
proof -
  have "setUTCDate t (getUTCDate t + k) = (Day t + k) * msPerDay + TimeWithinDay t"
    by (simp add: setUTCDate_def getUTCDate_def MakeDate_def MakeDay_fields)
  also have "\<dots> = Day t * msPerDay + TimeWithinDay t + k * msPerDay"
    by (simp add: algebra_simps)
  finally show ?thesis by (simp add: Day_TimeWithinDay)
qed

lemma setUTCDate_sub: "setUTCDate t (getUTCDate t - k) = t - k * msPerDay"
  using setUTCDate_add [of t "- k"] by simp

lemma MakeDay_date: "MakeDay y m (d + k) = MakeDay y m d + k"
  by (simp add: MakeDay_def Let_def)

lemma setDate_same:
  assumes "getDate z t = d" and "z (LocalTime z t) False = z t True"
  shows "setDate z t d = t"
proof -
  have "MakeDay (YearFromTime (LocalTime z t)) (MonthFromTime (LocalTime z t)) d
          = Day (LocalTime z t)"
    using MakeDay_fields [of "LocalTime z t" 0] assms(1) by (simp add: getDate_def)
  then have "setDate z t d = UTC z (LocalTime z t)"
    by (simp add: setDate_def Let_def MakeDate_def Day_TimeWithinDay)
  then show ?thesis
    using assms(2) by (simp add: UTC_def LocalTime_def)
qed

text \<open>
  The fields are in range, and \<open>civil_from_days\<close> inverts \<open>MakeDay\<close> on the days of the
  months from March to January (February needs the leap year rule and is not used below).
\<close>

lemma civil_from_days_steps:
  assumes "z = day + 719468" and "era = z div 146097" and "doe = z mod 146097"
    and "c = min (doe div 36524) 3" and "doc = doe - c * 36524"
    and "q = doc div 1461" and "doq = doc - q * 1461"
    and "yq = min (doq div 365) 3" and "doy = doq - yq * 365"
    and "mp = (5 * doy + 2) div 153"
  shows "civil_from_days day =
      (era * 400 + c * 100 + q * 4 + yq
         + (if (if mp < 10 then mp + 2 else mp - 10) \<le> 1 then 1 else 0),
       (if mp < 10 then mp + 2 else mp - 10),
       doy - (153 * mp + 2) div 5 + 1)"
  unfolding assms civil_from_days_def Let_def by (rule refl)

lemma date_of_month_aux:
  fixes doy :: int
  assumes "0 \<le> doy" "doy \<le> 365" "mp = (5 * doy + 2) div 153"
    and "d = doy - (153 * mp + 2) div 5 + 1"
  shows "1 \<le> d \<and> d \<le> 31"
  using assms by linarith

lemma DateFromTime_range: "1 \<le> DateFromTime t \<and> DateFromTime t \<le> 31"
proof -
  define z where "z = Day t + 719468"
  define era where "era = z div 146097"
  define doe where "doe = z mod 146097"
  define c where "c = min (doe div 36524) 3"
  define doc where "doc = doe - c * 36524"
  define q where "q = doc div 1461"
  define doq where "doq = doc - q * 1461"
  define yq where "yq = min (doq div 365) 3"
  define doy where "doy = doq - yq * 365"
  define mp where "mp = (5 * doy + 2) div 153"
  have d: "DateFromTime t = doy - (153 * mp + 2) div 5 + 1"
    unfolding DateFromTime_def
      civil_from_days_steps [OF z_def era_def doe_def c_def doc_def q_def doq_def yq_def
        doy_def mp_def]
    by simp
  have doe: "0 \<le> doe" "doe < 146097" by (simp_all add: doe_def)
  note b = civil_bounds_aux [OF doe c_def doc_def q_def doq_def yq_def doy_def mp_def]
  show ?thesis
    using date_of_month_aux [OF _ _ mp_def d] b by simp
qed

lemma month_index_aux:
  fixes mp :: int
  assumes "0 \<le> mp" "mp \<le> 10" "1 \<le> d"
    and "d \<le> (153 * (mp + 1) + 2) div 5 - (153 * mp + 2) div 5"
    and "doy = (153 * mp + 2) div 5 + (d - 1)"
  shows "(5 * doy + 2) div 153 = mp \<and> 0 \<le> doy \<and> doy \<le> 336"
proof -
  from assms(1,2) have "mp = 0 \<or> mp = 1 \<or> mp = 2 \<or> mp = 3 \<or> mp = 4 \<or> mp = 5
      \<or> mp = 6 \<or> mp = 7 \<or> mp = 8 \<or> mp = 9 \<or> mp = 10"
    by arith
  then show ?thesis
    using assms(3-5) by (elim disjE) auto
qed

lemma civil_from_days_March_to_January:
  assumes mp: "0 \<le> mp" "mp \<le> 10"
    and d: "1 \<le> d" "d \<le> (153 * (mp + 1) + 2) div 5 - (153 * mp + 2) div 5"
    and m: "m = (if mp < 10 then mp + 2 else mp - 10)"
  shows "civil_from_days (MakeDay y m d) = (y, m, d)"
proof -
  define y' where "y' = (if m \<le> 1 then y - 1 else y)"
  define e where "e = y' div 400"
  define r where "r = y' mod 400"
  define c0 where "c0 = r div 100"
  define q0 where "q0 = (r mod 100) div 4"
  define r4 where "r4 = (r mod 100) mod 4"
  define doy where "doy = (153 * mp + 2) div 5 + (d - 1)"
  have r: "0 \<le> r" "r < 400" by (simp_all add: r_def)
  have parts: "r = 100 * c0 + 4 * q0 + r4" "0 \<le> c0" "c0 \<le> 3" "0 \<le> q0" "q0 \<le> 24"
    "0 \<le> r4" "r4 \<le> 3"
    using r unfolding c0_def q0_def r4_def by auto
  have y': "y' = 400 * e + r" by (simp add: e_def r_def)
  have r_4: "r div 4 = 25 * c0 + q0" and r_100: "r div 100 = c0"
    using parts by auto
  have idx: "(5 * doy + 2) div 153 = mp" "0 \<le> doy" "doy \<le> 336"
    using month_index_aux [OF mp d doy_def] by simp_all
  have m_range: "0 \<le> m" "m \<le> 11" using mp m by (simp_all split: if_splits)
  have m12: "m div 12 = 0" "m mod 12 = m" using m_range by simp_all
  have mp': "(if 2 \<le> m then m - 2 else m + 10) = mp" using mp m by (simp split: if_splits)
  define doe where "doe = 36524 * c0 + 1461 * q0 + 365 * r4 + doy"
  define z where "z = MakeDay y m d + 719468"
  have "MakeDay y m d = e * 146097 + (r * 365 + r div 4 - r div 100 + (153 * mp + 2) div 5)
                          - 719468 + d - 1"
    unfolding MakeDay_def Let_def m12
    by (simp only: add_0_right mp' y'_def [symmetric] e_def [symmetric] r_def [symmetric])
  then have md: "z = e * 146097 + doe"
    unfolding z_def doe_def doy_def r_4 r_100 by (simp add: parts(1))
  have doe: "0 \<le> doe" "doe < 146097" using parts idx unfolding doe_def by auto
  have z1: "e = z div 146097"
    unfolding md using doe by (simp add: div_pos_pos_trivial)
  have z2: "doe = z mod 146097"
    unfolding md using doe by (simp add: mod_pos_pos_trivial)
  have c: "c0 = min (doe div 36524) 3"
    using parts idx unfolding doe_def by auto
  define doc where "doc = 1461 * q0 + 365 * r4 + doy"
  have doc: "doc = doe - c0 * 36524"
    by (simp add: doe_def doc_def)
  have q: "q0 = doc div 1461"
    using parts idx unfolding doc_def by auto
  define doq where "doq = 365 * r4 + doy"
  have doq: "doq = doc - q0 * 1461"
    by (simp add: doc_def doq_def)
  have yq: "r4 = min (doq div 365) 3"
    using parts idx unfolding doq_def by auto
  have doy': "doy = doq - r4 * 365" by (simp add: doq_def)
  have mpv: "mp = (5 * doy + 2) div 153" using idx by simp
  have yv: "e * 400 + c0 * 100 + q0 * 4 + r4 + (if m \<le> 1 then 1 else 0) = y"
    using y' parts(1) unfolding y'_def by (simp split: if_splits)
  show ?thesis
    unfolding civil_from_days_steps [OF z_def z1 z2 c doc q doq yq doy' mpv]
    using yv m by (simp add: doy_def)
qed

lemma civil_from_days_January:
  assumes "1 \<le> d" "d \<le> 31"
  shows "civil_from_days (MakeDay y 0 d) = (y, 0, d)"
  using assms by (intro civil_from_days_March_to_January [where mp = 10]) simp_all

lemma civil_from_days_March:
  assumes "1 \<le> d" "d \<le> 31"
  shows "civil_from_days (MakeDay y 2 d) = (y, 2, d)"
  using assms by (intro civil_from_days_March_to_January [where mp = 0]) simp_all

lemma Day_MakeDate: "Day (MakeDate day (TimeWithinDay t)) = day"
  by (simp add: Day_def MakeDate_def TimeWithinDay_def msPerDay_def div_pos_pos_trivial)

lemma Day_of_midnight: "Day (d * msPerDay) = d" "TimeWithinDay (d * msPerDay) = 0"
  by (simp_all add: Day_def TimeWithinDay_def msPerDay_def)

section \<open>The store functions without the store\<close>

text \<open>
  \<open>getWeekNumberByDate\<close> allocates four Date objects and changes none that existed:
  its result and final store, with the allocations threaded out.
\<close>

lemma getWeekNumberByDate_eq:
  "getWeekNumberByDate z s date =
     (let myDate = Date_UTC (getFullYear z (s ! date)) (getMonth z (s ! date))
                            (getDate z (s ! date));
          currentYear = getFullYear z myDate;
          firstDayOfYear = Date_UTC currentYear 0 1;
          thursday = (if getUTCDay firstDayOfYear \<le> 4
                      then Date_UTC currentYear 0 (1 + (4 - getUTCDay firstDayOfYear))
                      else Date_UTC currentYear 0 (1 + (7 - getUTCDay firstDayOfYear + 4)));
          monday = setUTCDate thursday (getUTCDay thursday - 3)
      in ((myDate - monday) div 604800000 + 1, s @ [myDate, firstDayOfYear, thursday, monday]))"
  unfolding getWeekNumberByDate_def new_Date_def
  by (simp add: Let_def nth_append)

section \<open>Leap years\<close>

text \<open>
  March has 31 days, so setting the month to March keeps the day of the month: for every
  date, \<open>isLeapYear\<close> answers whether its UTC day of the month is 29.
\<close>

lemma isLeapYear_is_day_29:
  assumes "date < length s"
  shows "fst (isLeapYear s date) = (getUTCDate (s ! date) = 29)"
proof -
  define t where "t = s ! date"
  have "civil_from_days (MakeDay (YearFromTime t) 2 (DateFromTime t))
          = (YearFromTime t, 2, DateFromTime t)"
    using DateFromTime_range [of t] by (intro civil_from_days_March) simp_all
  then have "DateFromTime (setUTCMonth t 2) = DateFromTime t"
    unfolding setUTCMonth_def DateFromTime_def [of "MakeDate _ _"] Day_MakeDate by simp
  then show ?thesis
    using assms by (simp add: isLeapYear_def Let_def getUTCDate_def t_def)
qed

text \<open>
  Claim C1: for every date whose year is 2024 or 2020 \<open>isLeapYear\<close> returns true, for every
  date whose year is 2022 or 2023 it returns false, and the result depends only on the year.

  The source sets the month to index 2, which is March, and keeps the day of the month;
  it then compares that day with 29. So the answer is whether the date's UTC day of the
  month is 29, whatever the year (the lemma above): 2024-01-15, in a leap year, gives
  false and the object is moved to 2024-03-15; 2023-01-29, not in a leap year, gives true.
  The first example of the doc comment, \<^verbatim>\<open>Date(2024, 2, 1) => true\<close>, is local midnight
  of March 1: on a host in UTC the source returns false for it, and three hours east of
  UTC, where that instant is still February 29 in UTC, it returns true.
\<close>

theorem isLeapYear_reads_day_of_month:
  "getUTCFullYear (Date_UTC 2024 0 15) = 2024
   \<and> isLeapYear [Date_UTC 2024 0 15] 0 = (False, [Date_UTC 2024 2 15])
   \<and> getUTCFullYear (Date_UTC 2023 0 29) = 2023
   \<and> isLeapYear [Date_UTC 2023 0 29] 0 = (True, [Date_UTC 2023 2 29])
   \<and> fst (isLeapYear [Date_local (fixed_zone 0) 2024 2 1] 0) = False
   \<and> fst (isLeapYear [Date_local (fixed_zone (3 * 3600000)) 2024 2 1] 0) = True"
  by code_simp

section \<open>Week numbers\<close>

text \<open>
  For every date the source counts whole weeks from January 1 of the year, whatever the
  weekday of January 1.
\<close>

lemma getWeekNumberByDate_counts_from_January_1:
  "fst (getWeekNumberByDate z s date) =
     (let myDate = Date_UTC (getFullYear z (s ! date)) (getMonth z (s ! date))
                            (getDate z (s ! date));
          currentYear = getFullYear z myDate
      in (myDate - Date_UTC currentYear 0 1) div 604800000 + 1)"
proof -
  define myDate where "myDate = Date_UTC (getFullYear z (s ! date))
      (getMonth z (s ! date)) (getDate z (s ! date))"
  define Y where "Y = MakeFullYear (getFullYear z myDate)"
  define J where "J = MakeDay Y 0 1"
  define w where "w = getUTCDay (J * msPerDay)"
  define k where "k = (if w \<le> 4 then 1 + (4 - w) else 1 + (7 - w + 4))"
  have jan1: "Date_UTC (getFullYear z myDate) 0 d = (J + (d - 1)) * msPerDay" for d
    using MakeDay_date [of Y 0 1 "d - 1"] by (simp add: Date_UTC_def MakeDate_def Y_def J_def)
  have w: "0 \<le> w" "w \<le> 6" "w = (J + 4) mod 7"
    by (simp_all add: w_def getUTCDay_def WeekDay_def Day_of_midnight)
  have k: "1 \<le> k" "k \<le> 7" using w(1,2) by (auto simp: k_def)
  have "((J + 4) mod 7 + (k - 1)) mod 7 = (J + 4 + (k - 1)) mod 7"
    by (rule mod_add_left_eq)
  then have "(J + (k - 1) + 4) mod 7 = (w + (k - 1)) mod 7"
    by (simp add: w(3) ac_simps)
  also have "\<dots> = 4" using w(1,2) unfolding k_def by auto
  finally have thu: "getUTCDay ((J + (k - 1)) * msPerDay) = 4"
    by (simp add: getUTCDay_def WeekDay_def Day_of_midnight)
  have "civil_from_days (MakeDay Y 0 k) = (Y, 0, k)"
    using k by (intro civil_from_days_January) simp_all
  then have civ: "civil_from_days (J + (k - 1)) = (Y, 0, k)"
    using MakeDay_date [of Y 0 1 "k - 1"] by (simp add: J_def)
  have monday: "setUTCDate ((J + (k - 1)) * msPerDay) 1 = J * msPerDay"
    unfolding setUTCDate_def YearFromTime_def MonthFromTime_def Day_of_midnight civ
    by (simp add: MakeDate_def J_def)
  have first: "Date_UTC (getFullYear z myDate) 0 1 = J * msPerDay"
    using jan1 [of 1] by simp
  have thursday: "(if getUTCDay (J * msPerDay) \<le> 4
        then Date_UTC (getFullYear z myDate) 0 (1 + (4 - getUTCDay (J * msPerDay)))
        else Date_UTC (getFullYear z myDate) 0 (1 + (7 - getUTCDay (J * msPerDay) + 4)))
      = (J + (k - 1)) * msPerDay"
    unfolding jan1 k_def w_def by simp
  show ?thesis
    unfolding getWeekNumberByDate_eq Let_def myDate_def [symmetric] first thursday thu
    by (simp add: monday)
qed

text \<open>
  Claim C2: for every date \<open>getWeekNumberByDate\<close> equals the specification's algorithm
  (first Thursday of the year, back 3 days to the Monday of week 1, whole weeks since then
  plus one).

  The source calls \<^verbatim>\<open>setUTCDate(thursday.getUTCDay() - 3)\<close>: the weekday index of a
  Thursday is 4, so the day of the month is set to 1 and the "first Monday" is January 1,
  not the Thursday minus three days (the lemma above). For 2023-01-08, the Sunday that
  ends ISO week 1 of 2023, the source returns 2 and the specification's algorithm 1.
\<close>

theorem getWeekNumberByDate_differs_from_spec:
  "fst (getWeekNumberByDate (fixed_zone 0) [Date_local (fixed_zone 0) 2023 0 8] 0) = 2
   \<and> getWeekNumberByDate_spec (fixed_zone 0) (Date_local (fixed_zone 0) 2023 0 8) = 1"
  unfolding getWeekNumberByDate_eq by code_simp

lemma Day_shift:
  assumes "- msPerDay < tza" "tza < msPerDay"
  shows "Day (d * msPerDay + tza) = d \<or> Day (d * msPerDay + tza) = d - 1"
proof -
  have "(d * 86400000 + tza) div 86400000 = d + tza div 86400000"
    by (simp add: div_add1_eq)
  moreover have "tza div 86400000 = 0 \<or> tza div 86400000 = -1"
    using assms unfolding msPerDay_def
    by (auto simp: div_pos_pos_trivial div_eq_minus1 zdiv_eq_0_iff)
  ultimately show ?thesis unfolding Day_def msPerDay_def by auto
qed

lemma getFullYear_near:
  assumes "- msPerDay < z t True" "z t True < msPerDay"
    and "t = d * msPerDay"
    and "fst (civil_from_days d) = y" "fst (civil_from_days (d - 1)) = y"
  shows "getFullYear z t = y"
proof -
  have "Day (t + z t True) = d \<or> Day (t + z t True) = d - 1"
    using Day_shift [OF assms(1,2), of d] unfolding assms(3) .
  then show ?thesis
    using assms(4,5) by (auto simp: getFullYear_def YearFromTime_def LocalTime_def)
qed

lemma week_number_2024:
  assumes f: "getFullYear z (s ! date) = 2024" "getMonth z (s ! date) = m"
      "getDate z (s ! date) = d"
    and y: "getFullYear z (Date_UTC 2024 m d) = 2024"
  shows "fst (getWeekNumberByDate z s date)
           = (Date_UTC 2024 m d - 1704067200000) div 604800000 + 1"
proof -
  have a: "Date_UTC 2024 0 1 = 1704067200000" by code_simp
  have b: "getUTCDay 1704067200000 = 1" by code_simp
  have c: "Date_UTC 2024 0 4 = 1704326400000" by code_simp
  have d: "getUTCDay 1704326400000 = 4" by code_simp
  have e: "setUTCDate 1704326400000 1 = 1704067200000" by code_simp
  show ?thesis
    unfolding getWeekNumberByDate_eq by (simp add: Let_def f y a b c d e)
qed

text \<open>
  Claim C5: \<open>getWeekNumberByDate\<close> returns 1 for the date 2024-01-03, 5 for 2024-01-31 and
  8 for 2024-02-23.

  The date is given by its local fields, as \<^verbatim>\<open>new Date(2024, 0, 3)\<close> gives it, at any
  time of the day and in any time zone that is always less than a day away from UTC, with
  or without daylight saving time.
\<close>

theorem getWeekNumberByDate_2024:
  assumes "\<forall>t. - msPerDay < z t True \<and> z t True < msPerDay"
    and "getFullYear z (s ! date) = 2024"
  shows "(getMonth z (s ! date) = 0 \<and> getDate z (s ! date) = 3
            \<longrightarrow> fst (getWeekNumberByDate z s date) = 1)
       \<and> (getMonth z (s ! date) = 0 \<and> getDate z (s ! date) = 31
            \<longrightarrow> fst (getWeekNumberByDate z s date) = 5)
       \<and> (getMonth z (s ! date) = 1 \<and> getDate z (s ! date) = 23
            \<longrightarrow> fst (getWeekNumberByDate z s date) = 8)"
proof -
  have lo: "- msPerDay < z t True" and hi: "z t True < msPerDay" for t
    using assms(1) by simp_all
  have d1: "Date_UTC 2024 0 3 = 1704240000000" "1704240000000 = 19725 * msPerDay"
    by code_simp+
  have d2: "Date_UTC 2024 0 31 = 1706659200000" "1706659200000 = 19753 * msPerDay"
    by code_simp+
  have d3: "Date_UTC 2024 1 23 = 1708646400000" "1708646400000 = 19776 * msPerDay"
    by code_simp+
  have y1: "getFullYear z (Date_UTC 2024 0 3) = 2024"
    unfolding d1(1) by (rule getFullYear_near [where z = z, OF lo hi d1(2)]; code_simp)
  have y2: "getFullYear z (Date_UTC 2024 0 31) = 2024"
    unfolding d2(1) by (rule getFullYear_near [where z = z, OF lo hi d2(2)]; code_simp)
  have y3: "getFullYear z (Date_UTC 2024 1 23) = 2024"
    unfolding d3(1) by (rule getFullYear_near [where z = z, OF lo hi d3(2)]; code_simp)
  show ?thesis
    using week_number_2024 [OF assms(2) _ _ y1] week_number_2024 [OF assms(2) _ _ y2]
      week_number_2024 [OF assms(2) _ _ y3]
    by (simp add: d1(1) d2(1) d3(1))
qed

theorem getWeekNumberByDate_2024_witness:
  "(\<forall>t. - msPerDay < fixed_zone 10800000 t True \<and> fixed_zone 10800000 t True < msPerDay)
   \<and> getFullYear (fixed_zone 10800000) ([Date_local (fixed_zone 10800000) 2024 0 3] ! 0) = 2024
   \<and> getMonth (fixed_zone 10800000) ([Date_local (fixed_zone 10800000) 2024 0 3] ! 0) = 0
   \<and> getDate (fixed_zone 10800000) ([Date_local (fixed_zone 10800000) 2024 0 3] ! 0) = 3
   \<and> fst (getWeekNumberByDate (fixed_zone 10800000)
             [Date_local (fixed_zone 10800000) 2024 0 3] 0) = 1
   \<and> getFullYear (fixed_zone 10800000) ([Date_local (fixed_zone 10800000) 2024 0 31] ! 0) = 2024
   \<and> getMonth (fixed_zone 10800000) ([Date_local (fixed_zone 10800000) 2024 0 31] ! 0) = 0
   \<and> getDate (fixed_zone 10800000) ([Date_local (fixed_zone 10800000) 2024 0 31] ! 0) = 31
   \<and> fst (getWeekNumberByDate (fixed_zone 10800000)
             [Date_local (fixed_zone 10800000) 2024 0 31] 0) = 5
   \<and> getFullYear (fixed_zone 10800000) ([Date_local (fixed_zone 10800000) 2024 1 23] ! 0) = 2024
   \<and> getMonth (fixed_zone 10800000) ([Date_local (fixed_zone 10800000) 2024 1 23] ! 0) = 1
   \<and> getDate (fixed_zone 10800000) ([Date_local (fixed_zone 10800000) 2024 1 23] ! 0) = 23
   \<and> fst (getWeekNumberByDate (fixed_zone 10800000)
             [Date_local (fixed_zone 10800000) 2024 1 23] 0) = 8"
proof -
  have tz: "\<forall>t. - msPerDay < fixed_zone 10800000 t True
                 \<and> fixed_zone 10800000 t True < msPerDay"
    by (simp add: fixed_zone_def msPerDay_def)
  have f1: "getFullYear (fixed_zone 10800000) ([Date_local (fixed_zone 10800000) 2024 0 3] ! 0) = 2024"
    "getMonth (fixed_zone 10800000) ([Date_local (fixed_zone 10800000) 2024 0 3] ! 0) = 0"
    "getDate (fixed_zone 10800000) ([Date_local (fixed_zone 10800000) 2024 0 3] ! 0) = 3"
    by code_simp+
  have f2: "getFullYear (fixed_zone 10800000) ([Date_local (fixed_zone 10800000) 2024 0 31] ! 0) = 2024"
    "getMonth (fixed_zone 10800000) ([Date_local (fixed_zone 10800000) 2024 0 31] ! 0) = 0"
    "getDate (fixed_zone 10800000) ([Date_local (fixed_zone 10800000) 2024 0 31] ! 0) = 31"
    by code_simp+
  have f3: "getFullYear (fixed_zone 10800000) ([Date_local (fixed_zone 10800000) 2024 1 23] ! 0) = 2024"
    "getMonth (fixed_zone 10800000) ([Date_local (fixed_zone 10800000) 2024 1 23] ! 0) = 1"
    "getDate (fixed_zone 10800000) ([Date_local (fixed_zone 10800000) 2024 1 23] ! 0) = 23"
    by code_simp+
  show ?thesis
    using getWeekNumberByDate_2024 [OF tz f1(1)] getWeekNumberByDate_2024 [OF tz f2(1)]
      getWeekNumberByDate_2024 [OF tz f3(1)] f1 f2 f3 tz
    by simp
qed

section \<open>The next Friday\<close>

lemma WeekDay_range: "0 \<le> WeekDay t \<and> WeekDay t \<le> 6"
  by (simp add: WeekDay_def)

text \<open>
  For a valid date the three tests of the source cover every weekday: the result is a new
  Date made from the number that \<open>parse\<close> returns, moved by 6 days from a Saturday, by 7
  days from a Friday and by \<open>5 - index\<close> days from any other day.
\<close>

lemma getNextFriday_eq:
  "getNextFriday parse s (Some d) =
     new_Date_Number
       (map_option
          (\<lambda>p. p + (if getUTCDay (s ! d) = 6 then 6
                     else if getUTCDay (s ! d) = 5 then 7
                     else 5 - getUTCDay (s ! d)) * msPerDay)
          (parse (s ! d))) s"
proof -
  have "getUTCDay (s ! d) \<le> 6" using WeekDay_range by (simp add: getUTCDay_def)
  then consider "getUTCDay (s ! d) = 6" | "getUTCDay (s ! d) = 5" | "getUTCDay (s ! d) \<le> 4"
    by linarith
  then show ?thesis
    by cases (simp_all add: getNextFriday_def msPerDay_def algebra_simps)
qed

lemma getNextFriday_Invalid_Date: "getNextFriday parse s None = (None, s)"
  by (simp add: getNextFriday_def)

lemma getNextFriday_NaN:
  "parse (s ! d) = None \<Longrightarrow> getNextFriday parse s (Some d) = (None, s)"
  by (simp add: getNextFriday_eq new_Date_Number_def)

lemma Day_truncate: "Day (t - t mod 1000) = Day t"
proof -
  have "t - t mod 1000 = 1000 * (t div 1000)"
    by (simp add: minus_mod_eq_mult_div)
  then have "(t - t mod 1000) div (1000 * 86400) = (t div 1000) div 86400"
    by simp
  moreover have "t div (1000 * 86400) = (t div 1000) div 86400"
    by (rule zdiv_zmult2_eq) simp
  ultimately show ?thesis by (simp add: Day_def msPerDay_def)
qed

lemma Day_add_days: "Day (t + k * msPerDay) = Day t + k"
  by (simp add: Day_def msPerDay_def)

lemma mod_1000_bounds: "0 \<le> (t::int) mod 1000 \<and> t mod 1000 < 1000"
  by simp

text \<open>
  Where \<^verbatim>\<open>Date.parse(date)\<close> gives the time value of the date back to the second, the
  result is the Friday the documentation promises: the input without its milliseconds,
  moved by the number of days \<open>k\<close> that the weekday fixes.
\<close>

lemma getNextFriday_truncating_parse:
  assumes "parse (s ! d) = Some (s ! d - (s ! d) mod 1000)"
    and "k = (if getUTCDay (s ! d) = 6 then 6
              else if getUTCDay (s ! d) = 5 then 7
              else 5 - getUTCDay (s ! d))"
    and "t' = s ! d - (s ! d) mod 1000 + k * msPerDay"
  shows "getNextFriday parse s (Some d) = (Some (length s), s @ [t'])"
    and "Day t' = Day (s ! d) + k" and "1 \<le> k \<and> k \<le> 7"
    and "getUTCDay t' = 5" and "s ! d < t'" and "t' - s ! d \<le> 7 * msPerDay"
proof -
  define t where "t = s ! d"
  show "getNextFriday parse s (Some d) = (Some (length s), s @ [t'])"
    unfolding getNextFriday_eq assms(1) assms(3) assms(2)
    by (simp add: new_Date_Number_def new_Date_def)
  have wd: "0 \<le> getUTCDay t" "getUTCDay t \<le> 6"
    using WeekDay_range [of t] by (simp_all add: getUTCDay_def)
  show k: "1 \<le> k \<and> k \<le> 7"
    using wd unfolding assms(2) t_def by auto
  show day: "Day t' = Day (s ! d) + k"
    unfolding assms(3) by (simp add: Day_add_days Day_truncate)
  have "((Day t + 4) mod 7 + k) mod 7 = (Day t + 4 + k) mod 7"
    by (rule mod_add_left_eq)
  then have "(Day t + k + 4) mod 7 = (getUTCDay t + k) mod 7"
    by (simp add: getUTCDay_def WeekDay_def ac_simps)
  also have "\<dots> = 5"
    using wd unfolding assms(2) t_def by auto
  finally have "(Day t + k + 4) mod 7 = 5" .
  then show "getUTCDay t' = 5"
    by (simp add: getUTCDay_def WeekDay_def day t_def)
  have "t - 1000 < t - t mod 1000" "t - t mod 1000 \<le> t"
    using mod_1000_bounds [of t] by simp_all
  then show "s ! d < t'" "t' - s ! d \<le> 7 * msPerDay"
    using k unfolding assms(3) t_def msPerDay_def by auto
qed

text \<open>
  On V8 that is so for a date whose local year is 100 or later, in a zone whose offset is a
  whole number of seconds.
\<close>

lemma V8_Date_parse_Date_from_year_100:
  assumes "100 \<le> getFullYear z t" and "z t True mod 1000 = 0"
  shows "V8_Date_parse_Date z t = Some (t - t mod 1000)"
proof -
  define lt where "lt = LocalTime z t"
  have y: "\<not> YearFromTime lt < 0" "\<not> YearFromTime lt \<le> 49" "\<not> YearFromTime lt \<le> 99"
    using assms(1) by (simp_all add: getFullYear_def lt_def)
  have day: "MakeDay (YearFromTime lt) (MonthFromTime lt) (DateFromTime lt) = Day lt"
    using MakeDay_fields [of lt 0] by simp
  have "TimeWithinDay lt mod 1000 = lt mod 1000"
    unfolding TimeWithinDay_def msPerDay_def by (rule mod_mod_cancel) simp
  then have "MakeDate (Day lt) (TimeWithinDay lt - TimeWithinDay lt mod 1000) = lt - lt mod 1000"
    using Day_TimeWithinDay [of lt] by (simp add: MakeDate_def)
  moreover have "lt mod 1000 = t mod 1000"
  proof -
    have "(t + z t True) mod 1000 = (t + z t True mod 1000) mod 1000"
      by (simp only: mod_add_right_eq)
    then show ?thesis
      by (simp add: assms(2) lt_def LocalTime_def)
  qed
  ultimately have "MakeDate (Day lt) (TimeWithinDay lt - TimeWithinDay lt mod 1000) - z t True
      = t - t mod 1000"
    by (simp add: lt_def LocalTime_def)
  then show ?thesis
    unfolding V8_Date_parse_Date_def Let_def lt_def [symmetric] by (simp add: y day)
qed

text \<open>
  Claim C4: \<open>getNextFriday\<close> advances by an amount fixed by the UTC weekday index of
  the input: exactly 6 days from a Saturday (index 6), exactly 7 days from a Friday (index
  5), exactly \<open>5 - index\<close> days from any other day.

  The source adds the days to \<^verbatim>\<open>Date.parse(date)\<close>, the date read back from its string
  form, where the time value of the date was meant. On V8 the string form of a year below
  100 is read as a year of the twentieth or twenty-first century: for Saturday 0050-01-01
  (UTC midnight, on a host in UTC) the source returns 1950-01-07, which is 693966 days
  later and a Saturday, where the documentation of the function promises the next Friday.
  The string form has no milliseconds either: Saturday 2024-02-03T00:00:00.500Z is
  advanced by 6 days less 500 milliseconds.
\<close>

theorem getNextFriday_advance_year_50:
  "MakeDate (MakeDay 50 0 1) 0 = - 60589296000000
   \<and> getUTCFullYear (- 60589296000000) = 50
   \<and> getUTCDay (- 60589296000000) = 6
   \<and> getNextFriday (V8_Date_parse_Date (fixed_zone 0)) [- 60589296000000] (Some 0)
       = (Some 1, [- 60589296000000, MakeDate (MakeDay 1950 0 7) 0])
   \<and> MakeDate (MakeDay 1950 0 7) 0 - (- 60589296000000) = 693966 * msPerDay
   \<and> getUTCDay (MakeDate (MakeDay 1950 0 7) 0) = 6
   \<and> getUTCDay (Date_UTC 2024 1 3 + 500) = 6
   \<and> getNextFriday (V8_Date_parse_Date (fixed_zone 0)) [Date_UTC 2024 1 3 + 500] (Some 0)
       = (Some 1, [Date_UTC 2024 1 3 + 500, Date_UTC 2024 1 9])
   \<and> Date_UTC 2024 1 9 - (Date_UTC 2024 1 3 + 500) = 6 * msPerDay - 500"
  unfolding getNextFriday_eq by code_simp

text \<open>
  Claim C9: the date returned by \<open>getNextFriday\<close> is a Friday (UTC weekday index 5) and
  lies strictly after the input, between 1 and 7 days later inclusive.

  The cause is the one of claim C4. On V8, for Thursday 0099-12-31 (UTC midnight, on a
  host in UTC) \<^verbatim>\<open>Date.parse(date)\<close> is 1999-12-31 and the source returns 2000-01-01: a
  Saturday, 693961 days after the input. For a date with a negative year
  \<^verbatim>\<open>Date.parse(date)\<close> is NaN and the source returns an Invalid Date, which has no
  weekday at all (the last conjunct, for December 31 of the year -1).
\<close>

theorem getNextFriday_year_99:
  "getUTCFullYear (MakeDate (MakeDay 99 11 31) 0) = 99
   \<and> getUTCDay (MakeDate (MakeDay 99 11 31) 0) = 4
   \<and> getNextFriday (V8_Date_parse_Date (fixed_zone 0)) [MakeDate (MakeDay 99 11 31) 0] (Some 0)
       = (Some 1, [MakeDate (MakeDay 99 11 31) 0, MakeDate (MakeDay 2000 0 1) 0])
   \<and> getUTCDay (MakeDate (MakeDay 2000 0 1) 0) = 6
   \<and> MakeDate (MakeDay 2000 0 1) 0 - MakeDate (MakeDay 99 11 31) 0 = 693961 * msPerDay
   \<and> getUTCFullYear (MakeDate (MakeDay (- 1) 11 31) 0) = - 1
   \<and> getNextFriday (V8_Date_parse_Date (fixed_zone 0)) [MakeDate (MakeDay (- 1) 11 31) 0]
         (Some 0)
       = (None, [MakeDate (MakeDay (- 1) 11 31) 0])"
  unfolding getNextFriday_eq by code_simp

section \<open>Which functions change the caller's Date\<close>

lemma getTime_store: "snd (getTime z s date) = s"
  by (simp add: getTime_def Let_def)

lemma getQuarter_store:
  "snd (getQuarter z s date)
     = s @ [Date_UTC (getFullYear z (s ! date)) (getMonth z (s ! date))
                     (getDate z (s ! date))]"
  by (simp add: getQuarter_def new_Date_def Let_def)

lemma getWeekNumberByDate_store:
  "\<exists>ds. snd (getWeekNumberByDate z s date) = s @ ds"
  unfolding getWeekNumberByDate_eq by (simp add: Let_def)

lemma getNextFriday_store:
  "\<exists>ds. snd (getNextFriday parse s date) = s @ ds"
proof (cases date)
  case None
  then show ?thesis by (simp add: getNextFriday_Invalid_Date)
next
  case (Some d)
  show ?thesis
    unfolding Some getNextFriday_eq
    by (cases "parse (s ! d)") (simp_all add: new_Date_Number_def new_Date_def)
qed

lemma getNextFridayThe13th_from_Thursday:
  "getNextFridayThe13th (fixed_zone 0) [Date_UTC 2024 8 12] 0
     = Some (1, [Date_UTC 2024 8 13, Date_UTC 2024 8 13])"
  by code_simp

lemma isLeapYear_from_January:
  "isLeapYear [Date_UTC 2024 0 15] 0 = (False, [Date_UTC 2024 2 15])"
  by code_simp

lemma Date_UTC_distinct:
  "Date_UTC 2024 8 13 \<noteq> Date_UTC 2024 8 12" "Date_UTC 2024 2 15 \<noteq> Date_UTC 2024 0 15"
  by code_simp+

text \<open>
  Claim C3: \<open>isLeapYear\<close> is the only exported function that mutates an argument of its
  caller; every other exported function, called on a date, leaves the fields of that date
  unchanged.

  As amended: two exported functions change the Date they are given, \<open>isLeapYear\<close> and
  \<open>getNextFridayThe13th\<close> (whose search advances the caller's object day by day). The
  other exported functions that take a Date, \<open>getTime\<close>, \<open>getNextFriday\<close>,
  \<open>getWeekNumberByDate\<close> and \<open>getQuarter\<close>, leave every Date object that existed before
  the call unchanged: the store after the call is the store before it, followed by the
  objects the function allocated. That holds in every time zone and whatever
  \<^verbatim>\<open>Date.parse\<close> returns. (The remaining exported functions take strings, numbers or a
  period record and have no Date argument.)
\<close>

theorem date_argument_frame:
  "take (length s) (snd (getTime z s date)) = s
   \<and> take (length s) (snd (getNextFriday parse s (Some date))) = s
   \<and> take (length s) (snd (getWeekNumberByDate z s date)) = s
   \<and> take (length s) (snd (getQuarter z s date)) = s
   \<and> (date < length s \<longrightarrow>
        snd (getTime z s date) ! date = s ! date
        \<and> snd (getNextFriday parse s (Some date)) ! date = s ! date
        \<and> snd (getWeekNumberByDate z s date) ! date = s ! date
        \<and> snd (getQuarter z s date) ! date = s ! date)
   \<and> snd (isLeapYear [Date_UTC 2024 0 15] 0) ! 0 \<noteq> [Date_UTC 2024 0 15] ! 0
   \<and> (case getNextFridayThe13th (fixed_zone 0) [Date_UTC 2024 8 12] 0 of
         None \<Rightarrow> False
       | Some (r, s') \<Rightarrow> s' ! 0 \<noteq> [Date_UTC 2024 8 12] ! 0)"
proof -
  obtain ds where w: "snd (getWeekNumberByDate z s date) = s @ ds"
    using getWeekNumberByDate_store by blast
  obtain fs where f: "snd (getNextFriday parse s (Some date)) = s @ fs"
    using getNextFriday_store by blast
  have frame: "take (length s) (snd (getTime z s date)) = s"
    "take (length s) (snd (getNextFriday parse s (Some date))) = s"
    "take (length s) (snd (getWeekNumberByDate z s date)) = s"
    "take (length s) (snd (getQuarter z s date)) = s"
    by (simp_all add: getTime_store f w getQuarter_store)
  have cell: "date < length s \<longrightarrow>
        snd (getTime z s date) ! date = s ! date
        \<and> snd (getNextFriday parse s (Some date)) ! date = s ! date
        \<and> snd (getWeekNumberByDate z s date) ! date = s ! date
        \<and> snd (getQuarter z s date) ! date = s ! date"
    by (simp add: getTime_store f w getQuarter_store nth_append)
  have mut: "snd (isLeapYear [Date_UTC 2024 0 15] 0) ! 0 \<noteq> [Date_UTC 2024 0 15] ! 0"
    "(case getNextFridayThe13th (fixed_zone 0) [Date_UTC 2024 8 12] 0 of
         None \<Rightarrow> False
       | Some (r, s') \<Rightarrow> s' ! 0 \<noteq> [Date_UTC 2024 8 12] ! 0)"
    by (simp_all add: isLeapYear_from_January getNextFridayThe13th_from_Thursday
        Date_UTC_distinct)
  show ?thesis using frame cell mut by blast
qed

theorem date_argument_frame_witness:
  "(0::nat) < length [Date_UTC 2024 1 3]
   \<and> snd (getTime (fixed_zone 0) [Date_UTC 2024 1 3] 0) ! 0 = [Date_UTC 2024 1 3] ! 0
   \<and> snd (getNextFriday (V8_Date_parse_Date (fixed_zone 0)) [Date_UTC 2024 1 3] (Some 0)) ! 0
       = [Date_UTC 2024 1 3] ! 0
   \<and> snd (getWeekNumberByDate (fixed_zone 0) [Date_UTC 2024 1 3] 0) ! 0 = [Date_UTC 2024 1 3] ! 0
   \<and> snd (getQuarter (fixed_zone 0) [Date_UTC 2024 1 3] 0) ! 0 = [Date_UTC 2024 1 3] ! 0"
  using date_argument_frame [where s = "[Date_UTC 2024 1 3]" and date = 0
      and z = "fixed_zone 0" and parse = "V8_Date_parse_Date (fixed_zone 0)"]
  by simp

text \<open>
  Called on Thursday 2024-09-12, \<open>getNextFridayThe13th\<close> leaves the caller's object at
  2024-09-13.
\<close>

theorem getNextFridayThe13th_mutates_argument:
  "getNextFridayThe13th (fixed_zone 0) [Date_UTC 2024 8 12] 0
     = Some (1, [Date_UTC 2024 8 13, Date_UTC 2024 8 13])
   \<and> Date_UTC 2024 8 13 \<noteq> Date_UTC 2024 8 12"
  by (simp add: getNextFridayThe13th_from_Thursday Date_UTC_distinct)

section \<open>The next Friday the 13th\<close>

lemma findNextFriday_found:
  "getUTCDay (s ! d) = 5 \<Longrightarrow> getUTCDate (s ! d) = 13 \<Longrightarrow> findNextFriday s d = Some (d, s)"
  by (subst findNextFriday.simps) simp

lemma getDate_UTC_zone: "getDate (fixed_zone 0) t = getUTCDate t"
  by (simp add: getDate_def getUTCDate_def LocalTime_def fixed_zone_def)

text \<open>
  When the input is a Friday the 13th in UTC and its local day of the month is 13 as well,
  the search returns at once, \<^verbatim>\<open>setDate(13)\<close> changes nothing, the caller's object is
  unchanged and the result is a new object with the same time value. (The condition on the
  zone says that the local time of the input is read back with the offset of the input; it
  fails only within a change of the clocks.) On a host in UTC the local day is the UTC day.
\<close>

lemma getNextFridayThe13th_on_local_13th:
  assumes "getUTCDay (s ! date) = 5" and "getUTCDate (s ! date) = 13"
    and "getDate z (s ! date) = 13"
    and "z (LocalTime z (s ! date)) False = z (s ! date) True"
  shows "getNextFridayThe13th z s date = Some (length s, s @ [s ! date])"
proof -
  have "setDate z (s ! date) 13 = s ! date"
    using assms(3,4) by (rule setDate_same)
  then show ?thesis
    by (simp add: getNextFridayThe13th_def findNextFriday_found [OF assms(1,2)] new_Date_def)
qed

lemma getNextFridayThe13th_on_Friday_13th_UTC_host:
  assumes "getUTCDay (s ! date) = 5" and "getUTCDate (s ! date) = 13"
  shows "getNextFridayThe13th (fixed_zone 0) s date = Some (length s, s @ [s ! date])"
proof (rule getNextFridayThe13th_on_local_13th [OF assms])
  show "getDate (fixed_zone 0) (s ! date) = 13"
    using assms(2) by (simp add: getDate_UTC_zone)
  show "fixed_zone 0 (LocalTime (fixed_zone 0) (s ! date)) False = fixed_zone 0 (s ! date) True"
    by (simp add: fixed_zone_def)
qed

text \<open>
  Claim C10: if the input is a Friday (UTC) and its UTC day of the month is 13,
  \<open>getNextFridayThe13th\<close> returns a date equal to the input: the search includes the
  starting date.

  The source searches with the UTC fields and then calls the local \<^verbatim>\<open>setDate(13)\<close> on
  the date it found. Three hours east of UTC the input 2024-09-13T23:00:00Z, a Friday the
  13th in UTC, is already the 14th in local time: the source returns
  2024-09-12T23:00:00Z, which is not equal to the input, lies before it and is Thursday
  the 12th in UTC, where the documentation of the function promises the next Friday the
  13th from the given date. The caller's object is moved to that instant as well.
\<close>

theorem getNextFridayThe13th_local_setDate:
  "getUTCDay (Date_UTC 2024 8 13 + 23 * 3600000) = 5
   \<and> getUTCDate (Date_UTC 2024 8 13 + 23 * 3600000) = 13
   \<and> getDate (fixed_zone (3 * 3600000)) (Date_UTC 2024 8 13 + 23 * 3600000) = 14
   \<and> getNextFridayThe13th (fixed_zone (3 * 3600000)) [Date_UTC 2024 8 13 + 23 * 3600000] 0
       = Some (1, [Date_UTC 2024 8 12 + 23 * 3600000, Date_UTC 2024 8 12 + 23 * 3600000])
   \<and> Date_UTC 2024 8 12 + 23 * 3600000 < Date_UTC 2024 8 13 + 23 * 3600000
   \<and> getUTCDay (Date_UTC 2024 8 12 + 23 * 3600000) = 4
   \<and> getUTCDate (Date_UTC 2024 8 12 + 23 * 3600000) = 12"
  by code_simp

section \<open>Days in a period\<close>

text \<open>
  Claim C8: for parseable date strings whose timestamps differ by a whole number \<open>d\<close> of
  days (negative when the end is earlier than the start, which nothing rejects),
  \<open>getCountDaysOnPeriod\<close> returns \<open>d + 1\<close>; for '2024-02-01' and '2024-02-02' it
  returns 2.

  The statement is for every function \<open>parse\<close> that the host may have for
  \<^verbatim>\<open>Date.parse\<close>, and so for every string that the host parses. The example needs the
  time values of its two strings, which ECMA-262 fixes: a date without a time is midnight
  UTC of that day.
\<close>

theorem getCountDaysOnPeriod_whole_days:
  assumes "parse dateStart = Some b" and "parse dateEnd = Some e"
    and "e - b = d * 86400000"
  shows "getCountDaysOnPeriod parse dateStart dateEnd = Some (of_int d + 1)
       \<and> (parse ''2024-02-01'' = Some (Date_UTC 2024 1 1)
            \<and> parse ''2024-02-02'' = Some (Date_UTC 2024 1 2)
          \<longrightarrow> getCountDaysOnPeriod parse ''2024-02-01'' ''2024-02-02'' = Some 2)"
proof -
  have "Date_UTC 2024 1 2 - Date_UTC 2024 1 1 = 86400000"
    by code_simp
  then show ?thesis
    using assms by (simp add: getCountDaysOnPeriod_def)
qed

theorem getCountDaysOnPeriod_whole_days_witness:
  "map_of [(''2024-02-01'', Date_UTC 2024 1 1), (''2024-02-02'', Date_UTC 2024 1 2)]
       ''2024-02-01'' = Some (Date_UTC 2024 1 1)
   \<and> map_of [(''2024-02-01'', Date_UTC 2024 1 1), (''2024-02-02'', Date_UTC 2024 1 2)]
       ''2024-02-02'' = Some (Date_UTC 2024 1 2)
   \<and> Date_UTC 2024 1 2 - Date_UTC 2024 1 1 = 1 * 86400000
   \<and> Date_UTC 2024 1 1 - Date_UTC 2024 1 2 = (- 1) * 86400000
   \<and> getCountDaysOnPeriod
         (map_of [(''2024-02-01'', Date_UTC 2024 1 1), (''2024-02-02'', Date_UTC 2024 1 2)])
         ''2024-02-01'' ''2024-02-02'' = Some 2
   \<and> getCountDaysOnPeriod
         (map_of [(''2024-02-01'', Date_UTC 2024 1 1), (''2024-02-02'', Date_UTC 2024 1 2)])
         ''2024-02-02'' ''2024-02-01'' = Some 0"
proof -
  define parse where
    "parse = map_of [(''2024-02-01'', Date_UTC 2024 1 1), (''2024-02-02'', Date_UTC 2024 1 2)]"
  have a: "parse ''2024-02-01'' = Some (Date_UTC 2024 1 1)"
    and b: "parse ''2024-02-02'' = Some (Date_UTC 2024 1 2)"
    by (simp_all add: parse_def)
  have c: "Date_UTC 2024 1 2 - Date_UTC 2024 1 1 = 1 * 86400000"
    and d: "Date_UTC 2024 1 1 - Date_UTC 2024 1 2 = (- 1) * 86400000"
    by code_simp+
  show ?thesis
    using
      getCountDaysOnPeriod_whole_days [where parse = parse and dateStart = "''2024-02-01''"
        and dateEnd = "''2024-02-02''", OF a b c]
      getCountDaysOnPeriod_whole_days [where parse = parse and dateStart = "''2024-02-02''"
        and dateEnd = "''2024-02-01''", OF b a d]
      a b c d
    unfolding parse_def by simp
qed

section \<open>The 12-hour clock\<close>

lemma digits_12: "Number_toString 12 = ''12''"
  by code_simp

text \<open>
  Claim C7: for a date string whose UTC hour is 0, \<open>formatDate\<close> prints the hour as 12
  with the suffix AM; for a UTC hour of 12 it prints the hour as 12 (never 0) with the
  suffix PM. The theorem gives the whole string in both cases.

  The statement is for every function \<open>parse\<close> that the host may have for
  \<^verbatim>\<open>Date.parse\<close>, every string that it parses and every time zone (the minutes and the
  seconds that the source prints are the local ones).
\<close>

theorem formatDate_hour_12:
  assumes "parse date = Some t"
  shows "(getUTCHours t = 0 \<longrightarrow>
            formatDate z parse date
              = Number_toString (getUTCMonth t + 1) @ ''/'' @ Number_toString (getUTCDate t)
                @ ''/'' @ Number_toString (getUTCFullYear t) @ '', '' @ ''12''
                @ (if getMinutes z t < 10 then '':0'' else '':'')
                @ Number_toString (getMinutes z t)
                @ (if getSeconds z t < 10 then '':0'' else '':'')
                @ Number_toString (getSeconds z t) @ '' AM'')
       \<and> (getUTCHours t = 12 \<longrightarrow>
            formatDate z parse date
              = Number_toString (getUTCMonth t + 1) @ ''/'' @ Number_toString (getUTCDate t)
                @ ''/'' @ Number_toString (getUTCFullYear t) @ '', '' @ ''12''
                @ (if getMinutes z t < 10 then '':0'' else '':'')
                @ Number_toString (getMinutes z t)
                @ (if getSeconds z t < 10 then '':0'' else '':'')
                @ Number_toString (getSeconds z t) @ '' PM'')"
  using assms by (simp add: formatDate_def Let_def digits_12)

text \<open>
  Two strings with their time values: 2010-12-15T00:59:07.000Z, and
  2024-02-01T15:00:00+03:00, which is noon in UTC.
\<close>

theorem formatDate_hour_12_witness:
  "map_of [(''2010-12-15T00:59:07.000Z'', 1292374747000),
           (''2024-02-01T15:00:00+03:00'', 1706788800000)]
       ''2010-12-15T00:59:07.000Z'' = Some 1292374747000
   \<and> getUTCHours 1292374747000 = 0
   \<and> formatDate (fixed_zone 0)
        (map_of [(''2010-12-15T00:59:07.000Z'', 1292374747000),
                 (''2024-02-01T15:00:00+03:00'', 1706788800000)])
        ''2010-12-15T00:59:07.000Z'' = ''12/15/2010, 12:59:07 AM''
   \<and> map_of [(''2010-12-15T00:59:07.000Z'', 1292374747000),
             (''2024-02-01T15:00:00+03:00'', 1706788800000)]
       ''2024-02-01T15:00:00+03:00'' = Some 1706788800000
   \<and> getUTCHours 1706788800000 = 12
   \<and> formatDate (fixed_zone 0)
        (map_of [(''2010-12-15T00:59:07.000Z'', 1292374747000),
                 (''2024-02-01T15:00:00+03:00'', 1706788800000)])
        ''2024-02-01T15:00:00+03:00'' = ''2/1/2024, 12:00:00 PM''"
proof -
  define parse :: "string \<Rightarrow> int option" where
    "parse = map_of [(''2010-12-15T00:59:07.000Z'', 1292374747000),
                     (''2024-02-01T15:00:00+03:00'', 1706788800000)]"
  have a: "parse ''2010-12-15T00:59:07.000Z'' = Some 1292374747000"
    and b: "parse ''2024-02-01T15:00:00+03:00'' = Some 1706788800000"
    by (simp_all add: parse_def)
  have h: "getUTCHours 1292374747000 = 0" "getUTCHours 1706788800000 = 12" by code_simp+
  have f: "Number_toString (getUTCMonth 1292374747000 + 1) = ''12''"
    "Number_toString (getUTCDate 1292374747000) = ''15''"
    "Number_toString (getUTCFullYear 1292374747000) = ''2010''"
    "getMinutes (fixed_zone 0) 1292374747000 = 59" "getSeconds (fixed_zone 0) 1292374747000 = 7"
    "Number_toString 59 = ''59''" "Number_toString 7 = ''7''"
    "Number_toString (getUTCMonth 1706788800000 + 1) = ''2''"
    "Number_toString (getUTCDate 1706788800000) = ''1''"
    "Number_toString (getUTCFullYear 1706788800000) = ''2024''"
    "getMinutes (fixed_zone 0) 1706788800000 = 0" "getSeconds (fixed_zone 0) 1706788800000 = 0"
    "Number_toString 0 = ''0''"
    by code_simp+
  show ?thesis
    using
      formatDate_hour_12 [where parse = parse and date = "''2010-12-15T00:59:07.000Z''"
        and z = "fixed_zone 0", OF a]
      formatDate_hour_12 [where parse = parse and date = "''2024-02-01T15:00:00+03:00''"
        and z = "fixed_zone 0", OF b]
      a b h
    unfolding parse_def by (simp add: f)
qed

section \<open>The work schedule\<close>

subsection \<open>On a host with a constant offset\<close>

text \<open>
  On a host whose offset from UTC never changes the cursor \<open>dataStart\<close> is always local
  midnight of some day \<open>D\<close>, that is \<open>D * msPerDay - tza\<close>, and \<open>dataEnd\<close> is local
  midnight of the day after the period's end. The inner loop visits the next
  \<open>countWorkDays\<close> days and pushes those before \<open>dataEnd\<close>; the outer loop follows
  \<open>workSchedule_spec\<close> cycle by cycle.
\<close>

lemma local_fields:
  assumes "t = D * msPerDay - tza"
  shows "getFullYear (fixed_zone tza) t = fst (civil_from_days D)"
    and "getMonth (fixed_zone tza) t = fst (snd (civil_from_days D))"
    and "getDate (fixed_zone tza) t = snd (snd (civil_from_days D))"
proof -
  have "Day (LocalTime (fixed_zone tza) t) = D"
    using assms by (simp add: LocalTime_def fixed_zone_def Day_def msPerDay_def)
  then show "getFullYear (fixed_zone tza) t = fst (civil_from_days D)"
    and "getMonth (fixed_zone tza) t = fst (snd (civil_from_days D))"
    and "getDate (fixed_zone tza) t = snd (snd (civil_from_days D))"
    by (simp_all add: getFullYear_def getMonth_def getDate_def YearFromTime_def
        MonthFromTime_def DateFromTime_def)
qed

lemma step_days: "setUTCDate (D * msPerDay - tza) (getUTCDate (D * msPerDay - tza) + k)
                    = (D + k) * msPerDay - tza"
  unfolding setUTCDate_add by (simp add: algebra_simps)

lemma day_less: "(a * msPerDay - tza < b * msPerDay - tza) = (a < b)"
proof -
  have "(a * msPerDay - tza < b * msPerDay - tza) = (a * msPerDay < b * msPerDay)"
    by auto
  also have "\<dots> = (a < b)"
    by (rule mult_less_cancel_right_pos) (simp add: msPerDay_def)
  finally show ?thesis .
qed

lemma pushed_string:
  assumes "t = D * msPerDay - tza" and "z = fixed_zone tza"
  shows "(if getDate z t < 10 then ''0'' @ Number_toString (getDate z t)
          else Number_toString (getDate z t)) @ ''-''
         @ (if getMonth z t + 1 < 10 then ''0'' @ Number_toString (getMonth z t + 1)
            else Number_toString (getMonth z t + 1)) @ ''-''
         @ Number_toString (getFullYear z t) = format_day D"
  unfolding assms(2) local_fields [OF assms(1)] format_day_def
  by (cases "civil_from_days D") simp

lemma getWorkSchedule_for_days:
  assumes z: "z = fixed_zone tza"
  shows "getWorkSchedule_for z w (L * msPerDay - tza) i (D * msPerDay - tza, sch)
     = ((D + max (w - i) 0) * msPerDay - tza,
        sch @ map format_day (filter (\<lambda>d. d < L) [D + 1 .. D + (w - i)]))"
proof (induction "nat (w - i)" arbitrary: i D sch)
  case 0
  then have "\<not> i < w" by simp
  then show ?case
    by (subst getWorkSchedule_for.simps) (simp add: max_def)
next
  case (Suc n)
  then have lt: "i < w" and n: "n = nat (w - (i + 1))" by simp_all
  have next_day: "setUTCDate (D * msPerDay - tza) (getUTCDate (D * msPerDay - tza) + 1)
                    = (D + 1) * msPerDay - tza"
    by (rule step_days)
  have cmp: "((D + 1) * msPerDay - tza < L * msPerDay - tza) = (D + 1 < L)"
    by (rule day_less)
  have str: "\<And>t. t = (D + 1) * msPerDay - tza \<Longrightarrow>
      (if getDate z t < 10 then ''0'' @ Number_toString (getDate z t)
          else Number_toString (getDate z t)) @ ''-''
         @ (if getMonth z t + 1 < 10 then ''0'' @ Number_toString (getMonth z t + 1)
            else Number_toString (getMonth z t + 1)) @ ''-''
         @ Number_toString (getFullYear z t) = format_day (D + 1)"
    by (rule pushed_string [OF _ z])
  have range: "[D + 1 .. D + (w - i)] = (D + 1) # [D + 1 + 1 .. D + 1 + (w - (i + 1))]"
    using lt by (subst upto_rec1) (simp_all add: algebra_simps)
  have mx: "D + 1 + max (w - (i + 1)) 0 = D + max (w - i) 0"
    using lt by (simp add: max_def)
  show ?case
    apply (subst getWorkSchedule_for.simps)
    apply (simp only: lt if_True Let_def next_day cmp str [OF refl])
    apply (simp only: Suc.hyps(1) [OF n] mx range)
    apply simp
    done
qed

lemma step_back: "setUTCDate (D * msPerDay - tza) (getUTCDate (D * msPerDay - tza) - 1)
                    = (D - 1) * msPerDay - tza"
  using step_days [of D tza "- 1"] by simp

lemma getWorkSchedule_while_days:
  assumes "0 < max w 0 + off" and z: "z = fixed_zone tza"
  shows "getWorkSchedule_while z w off (L * msPerDay - tza) (D * msPerDay - tza) sch
           = Some (sch @ map format_day (workSchedule_spec w off L D))"
proof (induction "nat (L - D)" arbitrary: D sch rule: less_induct)
  case less
  show ?case
  proof (cases "D < L")
    case True
    have "nat (L - (D + max w 0 + off)) < nat (L - D)"
      using True assms(1) by simp
    note IH = less.hyps [OF this]
    have work: "getWorkSchedule_for z w (L * msPerDay - tza) 0 (D * msPerDay - tza, sch)
         = ((D + max w 0) * msPerDay - tza,
            sch @ map format_day (filter (\<lambda>d. d < L) [D + 1 .. D + w]))"
      using getWorkSchedule_for_days [OF z, of w L 0 D sch] by simp
    have spec: "workSchedule_spec w off L D
         = filter (\<lambda>d. d < L) [D + 1 .. D + w]
           @ workSchedule_spec w off L (D + max w 0 + off)"
      using True assms(1) by (subst workSchedule_spec.simps) simp
    show ?thesis
      apply (subst getWorkSchedule_while.simps)
      apply (simp only: day_less True if_True work prod.case step_days IH)
      apply (simp add: spec)
      done
  next
    case False
    then show ?thesis
      by (subst getWorkSchedule_while.simps, subst workSchedule_spec.simps)
         (simp add: day_less)
  qed
qed

text \<open>
  So on such a host, for period strings whose three fields are numbers and for counts with
  which a cycle moves the cursor forward, the source returns, and its result is the
  schedule of the specification printed by \<open>format_day\<close>. \<open>S\<close> is the day of the
  period's start and \<open>L\<close> the day after its end.
\<close>

lemma getWorkSchedule_days:
  assumes "period_day toNumber 0 (period_start p) = Some S"
    and "period_day toNumber 1 (period_end p) = Some L"
    and "0 < max w 0 + off"
  shows "getWorkSchedule (fixed_zone tza) toNumber p w off
           = Some (map format_day (workSchedule_spec w off L (S - 1)))"
proof -
  from assms(1) obtain ys ms ds where
    s: "ToNumber_at toNumber (split_dash (period_start p)) 2 = Some ys"
       "ToNumber_at toNumber (split_dash (period_start p)) 1 = Some ms"
       "ToNumber_at toNumber (split_dash (period_start p)) 0 = Some ds"
       "S = MakeDay (MakeFullYear (ToIntegerOrInfinity ys)) (ToIntegerOrInfinity (ms - 1))
              (ToIntegerOrInfinity ds)"
    by (auto simp: period_day_def Let_def split: option.splits)
  from assms(2) obtain ye me de where
    e: "ToNumber_at toNumber (split_dash (period_end p)) 2 = Some ye"
       "ToNumber_at toNumber (split_dash (period_end p)) 1 = Some me"
       "ToNumber_at toNumber (split_dash (period_end p)) 0 = Some de"
       "L = MakeDay (MakeFullYear (ToIntegerOrInfinity ye)) (ToIntegerOrInfinity (me - 1))
              (ToIntegerOrInfinity (de + 1))"
    by (auto simp: period_day_def Let_def split: option.splits)
  have ds: "Date_local (fixed_zone tza) (ToIntegerOrInfinity ys) (ToIntegerOrInfinity (ms - 1))
              (ToIntegerOrInfinity ds) = S * msPerDay - tza"
    by (simp add: Date_local_def UTC_def fixed_zone_def MakeDate_def s(4))
  have de: "Date_local (fixed_zone tza) (ToIntegerOrInfinity ye) (ToIntegerOrInfinity (me - 1))
              (ToIntegerOrInfinity (de + 1)) = L * msPerDay - tza"
    by (simp add: Date_local_def UTC_def fixed_zone_def MakeDate_def e(4))
  show ?thesis
    unfolding getWorkSchedule_def Let_def s(1-3) e(1-3) new_Date_fields_def
    by (simp add: ds de step_back getWorkSchedule_while_days [OF assms(3) refl])
qed

text \<open>
  The two examples of the documentation, on every host with a constant offset. The numbers
  of the fields are those of ToNumber: a string of decimal digits is its decimal value.
\<close>

lemma example_period:
  "period_day (map_of [(''01'', 1), (''10'', 10), (''15'', 15), (''2024'', 2024)]) 0
     (period_start \<lparr>period_start = ''01-01-2024'', period_end = ''15-01-2024''\<rparr>) = Some 19723"
  "period_day (map_of [(''01'', 1), (''10'', 10), (''15'', 15), (''2024'', 2024)]) 1
     (period_end \<lparr>period_start = ''01-01-2024'', period_end = ''15-01-2024''\<rparr>) = Some 19738"
  "period_day (map_of [(''01'', 1), (''10'', 10), (''15'', 15), (''2024'', 2024)]) 0
     (period_start \<lparr>period_start = ''01-01-2024'', period_end = ''10-01-2024''\<rparr>) = Some 19723"
  "period_day (map_of [(''01'', 1), (''10'', 10), (''15'', 15), (''2024'', 2024)]) 1
     (period_end \<lparr>period_start = ''01-01-2024'', period_end = ''10-01-2024''\<rparr>) = Some 19733"
  by code_simp+

lemma example_spec:
  "map format_day (workSchedule_spec 1 3 19738 (19723 - 1))
     = [''01-01-2024'', ''05-01-2024'', ''09-01-2024'', ''13-01-2024'']"
  "map format_day (workSchedule_spec 1 1 19733 (19723 - 1))
     = [''01-01-2024'', ''03-01-2024'', ''05-01-2024'', ''07-01-2024'', ''09-01-2024'']"
  by code_simp+

lemma getWorkSchedule_examples:
  "getWorkSchedule (fixed_zone tza)
       (map_of [(''01'', 1), (''10'', 10), (''15'', 15), (''2024'', 2024)])
       \<lparr>period_start = ''01-01-2024'', period_end = ''15-01-2024''\<rparr> 1 3
     = Some [''01-01-2024'', ''05-01-2024'', ''09-01-2024'', ''13-01-2024'']"
  "getWorkSchedule (fixed_zone tza)
       (map_of [(''01'', 1), (''10'', 10), (''15'', 15), (''2024'', 2024)])
       \<lparr>period_start = ''01-01-2024'', period_end = ''10-01-2024''\<rparr> 1 1
     = Some [''01-01-2024'', ''03-01-2024'', ''05-01-2024'', ''07-01-2024'', ''09-01-2024'']"
proof -
  have c: "(0::int) < max 1 0 + 3" "(0::int) < max 1 0 + 1" by simp_all
  show "getWorkSchedule (fixed_zone tza)
       (map_of [(''01'', 1), (''10'', 10), (''15'', 15), (''2024'', 2024)])
       \<lparr>period_start = ''01-01-2024'', period_end = ''15-01-2024''\<rparr> 1 3
     = Some [''01-01-2024'', ''05-01-2024'', ''09-01-2024'', ''13-01-2024'']"
    unfolding getWorkSchedule_days [OF example_period(1,2) c(1)] by (simp only: example_spec)
  show "getWorkSchedule (fixed_zone tza)
       (map_of [(''01'', 1), (''10'', 10), (''15'', 15), (''2024'', 2024)])
       \<lparr>period_start = ''01-01-2024'', period_end = ''10-01-2024''\<rparr> 1 1
     = Some [''01-01-2024'', ''03-01-2024'', ''05-01-2024'', ''07-01-2024'', ''09-01-2024'']"
    unfolding getWorkSchedule_days [OF example_period(3,4) c(2)] by (simp only: example_spec)
qed

subsection \<open>Counts that do not move the cursor\<close>

text \<open>
  Without a count that moves the cursor forward the loop of the source does not end: with
  no working days to visit and no days off, a cursor before \<open>dataEnd\<close> stays where it is.
\<close>

lemma getWorkSchedule_for_none:
  "w \<le> 0 \<Longrightarrow> getWorkSchedule_for z w de 0 (c, sch) = (c, sch)"
  by (subst getWorkSchedule_for.simps) simp

lemma setUTCDate_0: "setUTCDate t (getUTCDate t) = t"
  using setUTCDate_add [of t 0] by simp

lemma getWorkSchedule_while_no_progress:
  assumes "w \<le> 0" and "c < de"
  shows "getWorkSchedule_while z w 0 de c sch = None"
proof (cases "getWorkSchedule_while z w 0 de c sch")
  case None
  then show ?thesis .
next
  case (Some r)
  have "\<not> (w \<le> 0 \<and> (0::int) = 0 \<and> c < de)"
  proof (rule getWorkSchedule_while.raw_induct
      [where P = "\<lambda>z w off de c sch r. \<not> (w \<le> 0 \<and> off = 0 \<and> c < de)", OF _ Some])
    fix f :: "zone \<Rightarrow> int \<Rightarrow> int \<Rightarrow> int \<Rightarrow> int \<Rightarrow> string list \<Rightarrow> string list option"
    fix z' :: zone and w' off' de' c' :: int and sch' r' :: "string list"
    assume IH: "\<And>z w off de c sch r. f z w off de c sch = Some r
                  \<Longrightarrow> \<not> (w \<le> 0 \<and> off = 0 \<and> c < de)"
      and body: "(if c' < de'
          then case getWorkSchedule_for z' w' de' 0 (c', sch') of
               (dataStart1, schedule1) \<Rightarrow>
                 f z' w' off' de' (setUTCDate dataStart1 (getUTCDate dataStart1 + off'))
                   schedule1
          else Some sch') = Some r'"
    show "\<not> (w' \<le> 0 \<and> off' = 0 \<and> c' < de')"
    proof
      assume a: "w' \<le> 0 \<and> off' = 0 \<and> c' < de'"
      with body have "f z' w' 0 de' c' sch' = Some r'"
        by (simp add: getWorkSchedule_for_none setUTCDate_0)
      from IH [OF this] a show False by simp
    qed
  qed
  with assms show ?thesis by simp
qed

subsection \<open>Where the schedule is not the specified one\<close>

text \<open>
  Claim C6: \<open>getWorkSchedule({start:'01-01-2024', end:'15-01-2024'}, 1, 3)\<close> is
  \<open>['01-01-2024','05-01-2024','09-01-2024','13-01-2024']\<close>, and in general the result
  is the finite ordered list of zero-padded DD-MM-YYYY strings produced by starting the day
  before the period's start, advancing one day at a time for \<open>countWorkDays\<close> iterations
  (emitting each date strictly before end + 1 day), skipping \<open>countOffDays\<close> days, and
  repeating until the cursor reaches or passes end + 1 day.

  The example is right on every host with a constant offset (lemma
  \<open>getWorkSchedule_examples\<close>), and so is the general statement up to the printing of the
  year (lemma \<open>getWorkSchedule_days\<close>). The source fails in two ways.

  It pads the day and the month but prints the year with \<^verbatim>\<open>getFullYear()\<close> as a plain
  number: on a host in UTC the period from 01-01-0999 to 01-01-0999, with one working day
  and one day off, gives the one string 01-01-999, of nine characters, where the
  documentation of the function promises dates in the format DD-MM-YYYY.

  It moves the cursor with \<^verbatim>\<open>setUTCDate\<close>, by 24 hours, and prints it with the local
  getters, so the cursor leaves local midnight when the clocks change. In New York, for
  the period from 01-11-2024 to 05-11-2024 with one working day and no day off, the source
  returns six strings for the five days, with 03-11-2024 twice.
\<close>

theorem getWorkSchedule_not_the_schedule:
  "getWorkSchedule (fixed_zone 0) (map_of [(''01'', 1), (''0999'', 999)])
       \<lparr>period_start = ''01-01-0999'', period_end = ''01-01-0999''\<rparr> 1 1
     = Some [''01-01-999'']
   \<and> length ''01-01-999'' = 9
   \<and> getWorkSchedule New_York_2024
         (map_of [(''01'', 1), (''05'', 5), (''11'', 11), (''2024'', 2024)])
         \<lparr>period_start = ''01-11-2024'', period_end = ''05-11-2024''\<rparr> 1 0
       = Some [''01-11-2024'', ''02-11-2024'', ''03-11-2024'', ''03-11-2024'', ''04-11-2024'',
               ''05-11-2024'']
   \<and> map format_day (workSchedule_spec 1 0 (MakeDay 2024 10 6) (MakeDay 2024 10 1 - 1))
       = [''01-11-2024'', ''02-11-2024'', ''03-11-2024'', ''04-11-2024'', ''05-11-2024'']"
  by code_simp

end
